theory Spec2Isabelle
  imports Complex_Main "HOL-Library.Word" "HOL-Library.Sublist"
begin

unbundle bit_operations_syntax

section \<open>Machine types\<close>

type_synonym u8 = "8 word"
type_synonym u32 = "32 word"

section \<open>Channel hop scheduler (detector nodes, \<open>hopChannel\<close> and \<open>loop\<close>)\<close>

definition channels_24g :: "u8 list" where
  "channels_24g = [1, 6, 11, 2, 3, 4, 5, 7, 8, 9, 10, 12, 13]"

definition channels_5g :: "u8 list" where
  "channels_5g = [36, 40, 44, 48, 52, 56, 60, 64,
                  100, 104, 108, 112, 116, 120, 124, 128,
                  132, 136, 140, 144, 149, 153, 157, 161, 165]"

definition NUM_24G_CH :: nat where
  "NUM_24G_CH = length channels_24g"

definition NUM_5G_CH :: nat where
  "NUM_5G_CH = length channels_5g"

text \<open>
  The scheduler's globals. \<open>wifi_channel\<close> is the argument of the last call of
  \<open>esp_wifi_set_channel\<close>: \<open>setup\<close> calls it with channel 6, and it is \<open>None\<close>
  when the cursor indexes past the end of its channel list (a read the C code does not
  guard).
\<close>

record hop_state =
  chanIdx24 :: u8
  chanIdx5 :: u8
  on5GHz :: bool
  lastHop :: u32
  wifi_channel :: "u8 option"

definition hop_init :: hop_state where
  "hop_init = \<lparr>chanIdx24 = 0, chanIdx5 = 0, on5GHz = False, lastHop = 0, wifi_channel = Some 6\<rparr>"

definition channel_at :: "u8 list \<Rightarrow> u8 \<Rightarrow> u8 option" where
  "channel_at chans idx = (if unat idx < length chans then Some (chans ! unat idx) else None)"

text \<open>
  \<open>chanIdx = (chanIdx + 1) % NUM\<close>: the \<open>uint8_t\<close> cursor is promoted before the
  addition, so the sum does not wrap at 256; the remainder is stored back into the byte.
\<close>

definition next_cursor :: "u8 \<Rightarrow> nat \<Rightarrow> u8" where
  "next_cursor idx num = of_nat ((unat idx + 1) mod num)"

definition hopChannel :: "hop_state \<Rightarrow> hop_state" where
  "hopChannel s =
     (let s1 = (if on5GHz s
                then s\<lparr>wifi_channel := channel_at channels_5g (chanIdx5 s),
                       chanIdx5 := next_cursor (chanIdx5 s) NUM_5G_CH\<rparr>
                else s\<lparr>wifi_channel := channel_at channels_24g (chanIdx24 s),
                       chanIdx24 := next_cursor (chanIdx24 s) NUM_24G_CH\<rparr>)
      in s1\<lparr>on5GHz := \<not> on5GHz s1\<rparr>)"

text \<open>\<open>HOP_INTERVAL_MS\<close> is 100 in node-mode-c5 and 200 in remoteid-mesh-dualcore-c5.\<close>

definition HOP_INTERVAL_MS :: u32 where
  "HOP_INTERVAL_MS = 100"

definition HOP_INTERVAL_MS_mesh :: u32 where
  "HOP_INTERVAL_MS_mesh = 200"

text \<open>
  The channel-hopping step of \<open>loop\<close>: \<open>now\<close> is the value \<open>millis()\<close> returned, an
  \<open>unsigned long\<close> of 32 bits, so \<open>now - lastHop\<close> wraps.
\<close>

definition loop_hop :: "u32 \<Rightarrow> u32 \<Rightarrow> hop_state \<Rightarrow> hop_state" where
  "loop_hop interval now s =
     (if now - lastHop s \<ge> interval then (hopChannel s)\<lparr>lastHop := now\<rparr> else s)"

section \<open>C strings\<close>

text \<open>
  A NUL-terminated C string is modelled by the list of its characters before the
  terminator. The lists are meant to hold no NUL character: on a list that holds one
  the functions below read on where the C code stops. \<open>strstr\<close> returns the suffix
  starting at the first occurrence of the needle, \<open>None\<close> for the null pointer.
\<close>

fun strstr :: "string \<Rightarrow> string \<Rightarrow> string option" where
  "strstr [] needle = (if needle = [] then Some [] else None)"
| "strstr (c # cs) needle =
     (if prefix needle (c # cs) then Some (c # cs) else strstr cs needle)"

text \<open>
  \<open>strncpy(dst, src, n)\<close> into a buffer of \<open>n + 1\<close> bytes whose last byte is zero (every
  destination below is a field of a zero-filled struct, and the last byte is never
  written): the destination then reads as the first \<open>n\<close> characters of the source.
\<close>

definition strncpy :: "nat \<Rightarrow> string \<Rightarrow> string" where
  "strncpy n src = take n src"

definition dquote :: char where
  "dquote = CHR 0x22"

section \<open>Head end: JSON field extractor\<close>

text \<open>\<open>snprintf(pattern, 48, "\"%s\":\"", key)\<close>: at most 47 characters are kept.\<close>

definition json_pattern :: "string \<Rightarrow> string" where
  "json_pattern key = take 47 ([dquote] @ key @ [dquote, CHR '':'', dquote])"

text \<open>
  The copy loop \<open>while (*p && *p != '"' && i < outSize - 1) out[i++] = *p++\<close>; the
  second argument is the room left, \<open>outSize - 1 - i\<close>.
\<close>

fun copy_value :: "string \<Rightarrow> nat \<Rightarrow> string" where
  "copy_value [] room = []"
| "copy_value (c # cs) room =
     (if c \<noteq> dquote \<and> 0 < room then c # copy_value cs (room - 1) else [])"

text \<open>
  \<open>extractJsonString json key out outSize\<close> returns the function's result and the
  contents of the \<open>out\<close> buffer afterwards (untouched when the key is not found).
\<close>

definition extractJsonString :: "string \<Rightarrow> string \<Rightarrow> string \<Rightarrow> nat \<Rightarrow> nat \<times> string" where
  "extractJsonString json key out outSize =
     (case strstr json (json_pattern key) of
        None \<Rightarrow> (0, out)
      | Some p \<Rightarrow>
          (let v = copy_value (drop (length (json_pattern key)) p) (outSize - 1)
           in (length v, v)))"

section \<open>Head end: deduplication engine\<close>

definition DEDUP_MAX_DRONES :: nat where
  "DEDUP_MAX_DRONES = 16"

definition DEDUP_WINDOW_MS :: u32 where
  "DEDUP_WINDOW_MS = 500"

definition DEDUP_STALE_MS :: u32 where
  "DEDUP_STALE_MS = 30000"

text \<open>
  \<open>struct dedup_entry\<close>. Its field \<open>mac\<close> is called \<open>dmac\<close> here, the name \<open>mac\<close>
  being taken by the detector's \<open>uav_data\<close> below.
\<close>

record dedup_entry =
  dmac :: string
  windowStart :: u32
  lastSeen :: u32
  active :: bool
  firstNodeId :: string
  dupsBlocked :: u8

definition dedup_zero :: dedup_entry where
  "dedup_zero = \<lparr>dmac = [], windowStart = 0, lastSeen = 0, active = False,
                  firstNodeId = [], dupsBlocked = 0\<rparr>"

definition dedupInit :: "dedup_entry list" where
  "dedupInit = replicate DEDUP_MAX_DRONES dedup_zero"

text \<open>The scan \<open>for (i = 0; i < N; i++) if (P(table[i])) return i\<close> over a table.\<close>

primrec first_index :: "('a \<Rightarrow> bool) \<Rightarrow> 'a list \<Rightarrow> nat \<Rightarrow> nat option" where
  "first_index P [] i = None"
| "first_index P (x # xs) i = (if P x then Some i else first_index P xs (Suc i))"

text \<open>
  The oldest-entry scan over the time stamps of a table, started with
  \<open>oldest_time = UINT32_MAX\<close> and \<open>oldest_idx = 0\<close>.
\<close>

primrec oldest_scan :: "u32 list \<Rightarrow> nat \<Rightarrow> u32 \<Rightarrow> nat \<Rightarrow> nat" where
  "oldest_scan [] i oldest_time oldest_idx = oldest_idx"
| "oldest_scan (t # ts) i oldest_time oldest_idx =
     (if t < oldest_time then oldest_scan ts (Suc i) t i
      else oldest_scan ts (Suc i) oldest_time oldest_idx)"

definition UINT32_MAX :: u32 where
  "UINT32_MAX = 0xFFFFFFFF"

definition dedupFind :: "dedup_entry list \<Rightarrow> string \<Rightarrow> nat option" where
  "dedupFind tbl m = first_index (\<lambda>e. active e \<and> dmac e = m) tbl 0"

definition dedup_fresh :: "string \<Rightarrow> dedup_entry" where
  "dedup_fresh m = dedup_zero\<lparr>dmac := strncpy 17 m, active := True\<rparr>"

text \<open>\<open>dedupAlloc\<close> returns the table and the index of the slot it hands out.\<close>

definition dedupAlloc :: "dedup_entry list \<Rightarrow> string \<Rightarrow> dedup_entry list \<times> nat" where
  "dedupAlloc tbl m =
     (case first_index (\<lambda>e. \<not> active e) tbl 0 of
        Some i \<Rightarrow> (tbl[i := dedup_fresh m], i)
      | None \<Rightarrow>
          (let oldestIdx = oldest_scan (map lastSeen tbl) 0 UINT32_MAX 0
           in (tbl[oldestIdx := dedup_fresh m], oldestIdx)))"

text \<open>What the head end writes to the USB serial port, one element per line.\<close>

datatype serial_line =
    Println string
  | StaleCleared string u32

record home_state =
  dedupTable :: "dedup_entry list"
  serial_out :: "serial_line list"
  msgReceived :: u32
  msgForwarded :: u32
  msgSuppressed :: u32
  msgNonJson :: u32

definition home_init :: home_state where
  "home_init = \<lparr>dedupTable = dedupInit, serial_out = [], msgReceived = 0,
                 msgForwarded = 0, msgSuppressed = 0, msgNonJson = 0\<rparr>"

text \<open>
  \<open>dedupCleanStale\<close>: the loop over the table, from slot \<open>i\<close> on; each stale active
  entry is logged with its age in seconds and deactivated.
\<close>

fun clean_loop :: "u32 \<Rightarrow> dedup_entry list \<Rightarrow> dedup_entry list \<times> serial_line list" where
  "clean_loop now [] = ([], [])"
| "clean_loop now (e # es) =
     (let (es', out) = clean_loop now es
      in if active e \<and> now - lastSeen e > DEDUP_STALE_MS
         then (e\<lparr>active := False\<rparr> # es',
               StaleCleared (dmac e) ((now - lastSeen e) div 1000) # out)
         else (e # es', out))"

definition dedupCleanStale :: "u32 \<Rightarrow> home_state \<Rightarrow> home_state" where
  "dedupCleanStale now st =
     (let (tbl, out) = clean_loop now (dedupTable st)
      in st\<lparr>dedupTable := tbl, serial_out := serial_out st @ out\<rparr>)"

text \<open>
  \<open>looksLikeJSON\<close>: the two index scans that skip blanks from the front and from the
  back. \<open>len\<close> is the length of the line.
\<close>

definition is_blank :: "char \<Rightarrow> bool" where
  "is_blank c = (c = CHR '' '' \<or> c = CHR 0x09)"

function scan_start :: "string \<Rightarrow> nat \<Rightarrow> nat \<Rightarrow> nat" where
  "scan_start line len start =
     (if start < len \<and> is_blank (line ! start) then scan_start line len (Suc start) else start)"
  by pat_completeness auto
termination
  by (relation "measure (\<lambda>(line, len, start). len - start)") auto

function scan_end :: "string \<Rightarrow> nat \<Rightarrow> nat \<Rightarrow> nat" where
  "scan_end line start e =
     (if e > start \<and> is_blank (line ! e) then scan_end line start (e - 1) else e)"
  by pat_completeness auto
termination
  by (relation "measure (\<lambda>(line, start, e). e)") auto

definition looksLikeJSON :: "string \<Rightarrow> bool" where
  "looksLikeJSON line =
     (let len = length line in
      if len < 2 then False
      else let start = scan_start line len 0 in
        if start \<ge> len then False
        else let e = scan_end line start (len - 1) in
          line ! start = CHR ''{'' \<and> line ! e = CHR ''}'')"

text \<open>
  \<open>processJsonLine\<close>; \<open>now\<close> is the value of \<open>millis()\<close>. The status LED
  (\<open>ledFlash\<close>) is left out: it writes only the pin and two variables that nothing
  below reads.
\<close>

definition forward :: "string \<Rightarrow> home_state \<Rightarrow> home_state" where
  "forward line st =
     st\<lparr>serial_out := serial_out st @ [Println line], msgForwarded := msgForwarded st + 1\<rparr>"

definition processJsonLine :: "u32 \<Rightarrow> string \<Rightarrow> home_state \<Rightarrow> home_state" where
  "processJsonLine now line st =
     (let (n, droneMac) = extractJsonString line ''mac'' [] 18 in
      if n = 0 then forward line st
      else
        let (k, nodeIdBuf) = extractJsonString line ''node_id'' [] 8;
            st1 = st\<lparr>msgReceived := msgReceived st + 1\<rparr>
        in case dedupFind (dedupTable st1) droneMac of
             None \<Rightarrow>
               (let (tbl, i) = dedupAlloc (dedupTable st1) droneMac;
                    entry = (tbl ! i)\<lparr>windowStart := now, lastSeen := now, dupsBlocked := 0,
                                      firstNodeId := strncpy 7 nodeIdBuf\<rparr>
                in forward line (st1\<lparr>dedupTable := tbl[i := entry]\<rparr>))
           | Some i \<Rightarrow>
               (let entry = (dedupTable st1 ! i)\<lparr>lastSeen := now\<rparr> in
                if now - windowStart entry \<ge> DEDUP_WINDOW_MS
                then
                  (let entry' = entry\<lparr>windowStart := now, dupsBlocked := 0,
                                      firstNodeId := strncpy 7 nodeIdBuf\<rparr>
                   in forward line (st1\<lparr>dedupTable := (dedupTable st1)[i := entry']\<rparr>))
                else
                  st1\<lparr>dedupTable := (dedupTable st1)[i := entry\<lparr>dupsBlocked := dupsBlocked entry + 1\<rparr>],
                      msgSuppressed := msgSuppressed st1 + 1\<rparr>))"

definition processLine :: "u32 \<Rightarrow> string \<Rightarrow> home_state \<Rightarrow> home_state" where
  "processLine now line st =
     (if length line = 0 then st
      else if looksLikeJSON line then processJsonLine now line st
      else st\<lparr>serial_out := serial_out st @ [Println (''[MESH] '' @ line)],
              msgNonJson := msgNonJson st + 1\<rparr>)"

text \<open>
  The head end's event loop as the claims see it: a line handed to \<open>processLine\<close> at
  time \<open>now\<close>, or a stale sweep at time \<open>now\<close>.
\<close>

datatype home_event = Arrival u32 string | Sweep u32

fun ev_time :: "home_event \<Rightarrow> u32" where
  "ev_time (Arrival t line) = t"
| "ev_time (Sweep t) = t"

fun home_step :: "home_state \<Rightarrow> home_event \<Rightarrow> home_state" where
  "home_step st (Arrival t line) = processLine t line st"
| "home_step st (Sweep t) = dedupCleanStale t st"

definition home_run :: "home_state \<Rightarrow> home_event list \<Rightarrow> home_state" where
  "home_run st evs = foldl home_step st evs"

text \<open>
  The invariant of the dedup table: every active entry has
  \<open>lastSeen \<ge> windowStart\<close>, and no two active entries carry the same MAC.
\<close>

definition dedup_inv :: "dedup_entry list \<Rightarrow> bool" where
  "dedup_inv tbl =
     (list_all (\<lambda>e. windowStart e \<le> lastSeen e) (filter active tbl) \<and>
      distinct (map dmac (filter active tbl)))"

text \<open>The states after each event of a run, in order.\<close>

fun home_trace :: "home_state \<Rightarrow> home_event list \<Rightarrow> home_state list" where
  "home_trace st [] = []"
| "home_trace st (e # es) = home_step st e # home_trace (home_step st e) es"

text \<open>
  The invariant strengthened for induction: no active entry was seen later than \<open>t\<close>,
  the time of the last event.
\<close>

definition inv_upto :: "u32 \<Rightarrow> dedup_entry list \<Rightarrow> bool" where
  "inv_upto t tbl =
     (list_all (\<lambda>e. windowStart e \<le> lastSeen e \<and> lastSeen e \<le> t) (filter active tbl) \<and>
      distinct (map dmac (filter active tbl)))"

section \<open>Detector nodes: the UAV tracking table\<close>

text \<open>
  A 6-byte hardware address; \<open>memcmp(a, b, 6) == 0\<close> is equality of the six bytes and
  \<open>mac[0]\<close> is the first component.
\<close>

type_synonym mac6 = "u8 \<times> u8 \<times> u8 \<times> u8 \<times> u8 \<times> u8"

definition mac_byte0 :: "mac6 \<Rightarrow> u8" where
  "mac_byte0 m = fst m"

definition mac_zero :: mac6 where
  "mac_zero = (0, 0, 0, 0, 0, 0)"

text \<open>
  \<open>struct uav_data\<close> (\<open>id_data\<close> in remoteid-mesh-dualcore-c5). The \<open>double\<close> fields
  are modelled as reals: the code only copies them and truncates some to \<open>int\<close>; it
  does no arithmetic on them. The two identifier buffers hold \<open>ODID_ID_SIZE + 1\<close> bytes.
\<close>

record uav_data =
  mac :: mac6
  rssi :: int
  last_seen :: u32
  op_id :: string
  uav_id :: string
  lat_d :: real
  long_d :: real
  base_lat_d :: real
  base_long_d :: real
  altitude_msl :: int
  height_agl :: int
  speed :: int
  heading :: int
  flag :: int

text \<open>A slot after \<open>memset(..., 0, ...)\<close>.\<close>

definition uav_zero :: uav_data where
  "uav_zero = \<lparr>mac = mac_zero, rssi = 0, last_seen = 0, op_id = [], uav_id = [],
                lat_d = 0, long_d = 0, base_lat_d = 0, base_long_d = 0,
                altitude_msl = 0, height_agl = 0, speed = 0, heading = 0, flag = 0\<rparr>"

definition MAX_UAVS :: nat where
  "MAX_UAVS = 8"

definition uavs_init :: "uav_data list" where
  "uavs_init = replicate MAX_UAVS uav_zero"

text \<open>
  \<open>next_uav\<close> of node-mode-c5 and node-mode-dualcore, returning the index of the slot:
  the slot holding the MAC, else the first slot whose \<open>mac[0]\<close> is 0, else the slot the
  oldest-entry scan selects.
\<close>

definition next_uav :: "uav_data list \<Rightarrow> mac6 \<Rightarrow> nat" where
  "next_uav uavs m =
     (case first_index (\<lambda>u. mac u = m) uavs 0 of
        Some i \<Rightarrow> i
      | None \<Rightarrow>
          (case first_index (\<lambda>u. mac_byte0 (mac u) = 0) uavs 0 of
             Some i \<Rightarrow> i
           | None \<Rightarrow> oldest_scan (map last_seen uavs) 0 UINT32_MAX 0))"

text \<open>\<open>next_uav\<close> of remoteid-mesh-dualcore-c5: the last resort is \<open>&uavs[0]\<close>.\<close>

definition next_uav_mesh :: "uav_data list \<Rightarrow> mac6 \<Rightarrow> nat" where
  "next_uav_mesh uavs m =
     (case first_index (\<lambda>u. mac u = m) uavs 0 of
        Some i \<Rightarrow> i
      | None \<Rightarrow>
          (case first_index (\<lambda>u. mac_byte0 (mac u) = 0) uavs 0 of
             Some i \<Rightarrow> i
           | None \<Rightarrow> 0))"

section \<open>Detector nodes: the Open Drone ID library interface\<close>

text \<open>
  The decoded message structs of \<open>opendroneid.h\<close>, with the fields the detector reads.
  The header is not part of the sources at hand: its sizes and decoders are parameters
  (\<open>odid_lib\<close>) of everything below.
\<close>

record ODID_BasicID_data =
  UASID :: string

record ODID_Location_data =
  Latitude :: real
  Longitude :: real
  AltitudeGeo :: real
  Height :: real
  SpeedHorizontal :: real
  Direction :: real

record ODID_System_data =
  OperatorLatitude :: real
  OperatorLongitude :: real

record ODID_OperatorID_data =
  OperatorId :: string

text \<open>\<open>ODID_UAS_Data\<close>: the decoded message pack with its validity flags.\<close>

record ODID_UAS_Data =
  BasicIDValid0 :: bool
  BasicID0 :: ODID_BasicID_data
  LocationValid :: bool
  Location :: ODID_Location_data
  SystemValid :: bool
  System :: ODID_System_data
  OperatorIDValid :: bool
  OperatorID :: ODID_OperatorID_data

text \<open>
  A decoder takes the previous contents of the struct it fills (the callers hand it an
  uninitialised local or the global \<open>UAS_data\<close>) and the encoded bytes. The two WiFi
  pack decoders take the memory behind a pointer and a length;
  \<open>odid_wifi_receive_message_pack_nan_action_frame\<close> also returns its result code.
\<close>

record odid_lib =
  ODID_ID_SIZE :: nat
  sizeof_BasicID_encoded :: nat
  sizeof_Location_encoded :: nat
  sizeof_System_encoded :: nat
  sizeof_OperatorID_encoded :: nat
  decodeBasicIDMessage :: "ODID_BasicID_data \<Rightarrow> u8 list \<Rightarrow> ODID_BasicID_data"
  decodeLocationMessage :: "ODID_Location_data \<Rightarrow> u8 list \<Rightarrow> ODID_Location_data"
  decodeSystemMessage :: "ODID_System_data \<Rightarrow> u8 list \<Rightarrow> ODID_System_data"
  decodeOperatorIDMessage :: "ODID_OperatorID_data \<Rightarrow> u8 list \<Rightarrow> ODID_OperatorID_data"
  odid_message_process_pack :: "ODID_UAS_Data \<Rightarrow> (nat \<Rightarrow> u8) \<Rightarrow> nat \<Rightarrow> ODID_UAS_Data"
  odid_wifi_receive_message_pack_nan_action_frame ::
    "ODID_UAS_Data \<Rightarrow> (nat \<Rightarrow> u8) \<Rightarrow> nat \<Rightarrow> int \<times> ODID_UAS_Data"

text \<open>
  The C cast \<open>(int)x\<close> of a floating-point value: truncation towards zero. The cast
  is undefined in C for a NaN and for a value whose integral part does not fit an
  \<open>int\<close>; here the result is the unbounded integer.
\<close>

definition c_int :: "real \<Rightarrow> int" where
  "c_int x = (if x \<ge> 0 then \<lfloor>x\<rfloor> else \<lceil>x\<rceil>)"

section \<open>Detector nodes: the output queue\<close>

definition QUEUE_LENGTH :: nat where
  "QUEUE_LENGTH = MAX_UAVS * 2"

text \<open>
  Modelled from the spec: the bounded FIFO behind \<open>printQueue\<close> (FreeRTOS
  \<open>xQueueCreate\<close>, \<open>xQueueSend\<close>, \<open>xQueueSendFromISR\<close>), whose code is
  not part of the sources at hand. A queue is the list of its items, oldest first. A
  send into a queue with room appends the item. A send into a full queue drops the item
  when it may not wait (\<open>xTicksToWait = 0\<close>, and always from an ISR); with a non-zero
  wait the caller is suspended, which is the result \<open>None\<close>.
\<close>

definition xQueueSend :: "nat \<Rightarrow> 'a list \<Rightarrow> 'a \<Rightarrow> nat \<Rightarrow> 'a list option" where
  "xQueueSend cap q item xTicksToWait =
     (if length q < cap then Some (q @ [item])
      else if xTicksToWait = 0 then Some q
      else None)"

definition xQueueSendFromISR :: "nat \<Rightarrow> 'a list \<Rightarrow> 'a \<Rightarrow> 'a list" where
  "xQueueSendFromISR cap q item = (if length q < cap then q @ [item] else q)"

section \<open>Detector nodes: the BLE scan callback\<close>

text \<open>The globals of a detector node that the two capture callbacks share.\<close>

record node_state =
  uavs :: "uav_data list"
  printQueue :: "uav_data list"
  UAS_data :: ODID_UAS_Data

text \<open>
  What the callback reads from the advertised device: \<open>haveServiceData()\<close>,
  \<open>getServiceData(NimBLEUUID(0xFFFA))\<close> (empty when there is none), \<open>getAddress()\<close> and
  \<open>getRSSI()\<close>.
\<close>

record ble_adv =
  haveServiceData :: bool
  serviceData :: "u8 list"
  address :: mac6
  adv_rssi :: int

text \<open>
  The four locals that the \<open>switch\<close> declares without initialising them: their contents
  on entry are whatever the stack holds, which is an input of the model.
\<close>

record stack_locals =
  basic :: ODID_BasicID_data
  loc :: ODID_Location_data
  sys :: ODID_System_data
  op :: ODID_OperatorID_data

text \<open>
  The \<open>switch (msg[0] & 0xF0)\<close> of \<open>onResult\<close>, the same in node-mode-c5 and
  remoteid-mesh-dualcore-c5. In each case the decoder runs only if the message is long
  enough, and the fields are then copied from the local in either event. There is no
  \<open>default\<close> case.
\<close>

definition odid_switch :: "odid_lib \<Rightarrow> stack_locals \<Rightarrow> u8 list \<Rightarrow> uav_data \<Rightarrow> uav_data" where
  "odid_switch lib stk msg UAV =
     (let msgLen = length msg; t = (msg ! 0) AND 0xF0 in
      if t = 0x00 then
        (let b = (if msgLen \<ge> sizeof_BasicID_encoded lib
                  then decodeBasicIDMessage lib (basic stk) msg else basic stk)
         in UAV\<lparr>uav_id := strncpy (ODID_ID_SIZE lib) (UASID b)\<rparr>)
      else if t = 0x10 then
        (let l = (if msgLen \<ge> sizeof_Location_encoded lib
                  then decodeLocationMessage lib (loc stk) msg else loc stk)
         in UAV\<lparr>lat_d := Latitude l, long_d := Longitude l,
                 altitude_msl := c_int (AltitudeGeo l), height_agl := c_int (Height l),
                 speed := c_int (SpeedHorizontal l), heading := c_int (Direction l)\<rparr>)
      else if t = 0x40 then
        (let s = (if msgLen \<ge> sizeof_System_encoded lib
                  then decodeSystemMessage lib (sys stk) msg else sys stk)
         in UAV\<lparr>base_lat_d := OperatorLatitude s, base_long_d := OperatorLongitude s\<rparr>)
      else if t = 0x50 then
        (let p = (if msgLen \<ge> sizeof_OperatorID_encoded lib
                  then decodeOperatorIDMessage lib (op stk) msg else op stk)
         in UAV\<lparr>op_id := strncpy (ODID_ID_SIZE lib) (OperatorId p)\<rparr>)
      else UAV)"

text \<open>
  \<open>DroneIDCallback::onResult\<close> of node-mode-c5. \<open>now\<close> is the value of \<open>millis()\<close>.
  The result \<open>None\<close> stands for a callback that is suspended in \<open>xQueueSend\<close>.
\<close>

definition onResult ::
  "odid_lib \<Rightarrow> stack_locals \<Rightarrow> u32 \<Rightarrow> ble_adv \<Rightarrow> node_state \<Rightarrow> node_state option" where
  "onResult lib stk now device st =
     (if \<not> haveServiceData device then Some st
      else let svcData = serviceData device in
        if svcData = [] \<or> length svcData < 2 then Some st
        else if length svcData < 3 then Some st
        else
          let m = address device;
              i = next_uav (uavs st) m;
              UAV = (uavs st ! i)\<lparr>last_seen := now, rssi := adv_rssi device, flag := 1, mac := m\<rparr>;
              msg = drop 1 svcData;
              msgLen = int (length svcData) - 1
          in if msgLen < 1 then Some (st\<lparr>uavs := (uavs st)[i := UAV]\<rparr>)
             else
               let UAV' = odid_switch lib stk msg UAV in
               case xQueueSend QUEUE_LENGTH (printQueue st) UAV' 0 of
                 None \<Rightarrow> None
               | Some q \<Rightarrow> Some (st\<lparr>uavs := (uavs st)[i := UAV'], printQueue := q\<rparr>))"

text \<open>\<open>MyAdvertisedDeviceCallbacks::onResult\<close> of remoteid-mesh-dualcore-c5.\<close>

definition onResult_mesh ::
  "odid_lib \<Rightarrow> stack_locals \<Rightarrow> u32 \<Rightarrow> ble_adv \<Rightarrow> node_state \<Rightarrow> node_state option" where
  "onResult_mesh lib stk now device st =
     (if \<not> haveServiceData device then Some st
      else let svcData = serviceData device in
        if svcData = [] \<or> length svcData < 3 then Some st
        else
          let m = address device;
              i = next_uav_mesh (uavs st) m;
              UAV = (uavs st ! i)\<lparr>last_seen := now, rssi := adv_rssi device, mac := m\<rparr>;
              odid = drop 1 svcData;
              msgLen = int (length svcData) - 1
          in if msgLen < 1 then Some (st\<lparr>uavs := (uavs st)[i := UAV]\<rparr>)
             else
               let UAV' = (odid_switch lib stk odid UAV)\<lparr>flag := 1\<rparr> in
               case xQueueSend QUEUE_LENGTH (printQueue st) UAV' 0 of
                 None \<Rightarrow> None
               | Some q \<Rightarrow> Some (st\<lparr>uavs := (uavs st)[i := UAV'], printQueue := q\<rparr>))"

text \<open>
  \<open>DroneIDCallback::onResult\<close> of node-mode-dualcore, which reads the raw advertisement:
  \<open>getPayloadLength()\<close>, the memory behind \<open>getPayload()\<close>, the native address and
  the RSSI. The message is taken to start at \<open>payload[6]\<close> and is decoded without any
  check of its length: \<open>encoded_at p k n\<close> is the \<open>n\<close> bytes behind \<open>p + k\<close> that a
  decoder reads as one encoded message, wherever the advertisement ends. The snapshot is
  sent with \<open>xQueueSendFromISR\<close>.
\<close>

record ble_payload_adv =
  payloadLength :: nat
  adv_payload :: "nat \<Rightarrow> u8"
  native_address :: mac6
  payload_rssi :: int

definition encoded_at :: "(nat \<Rightarrow> u8) \<Rightarrow> nat \<Rightarrow> nat \<Rightarrow> u8 list" where
  "encoded_at p k n = map (\<lambda>j. p (k + j)) [0..<n]"

definition onResult_dualcore ::
  "odid_lib \<Rightarrow> stack_locals \<Rightarrow> u32 \<Rightarrow> ble_payload_adv \<Rightarrow> node_state \<Rightarrow> node_state" where
  "onResult_dualcore lib stk now device st =
     (let len = payloadLength device; p = adv_payload device in
      if len \<le> 5 then st
      else if p 1 \<noteq> 0x16 \<or> p 2 \<noteq> 0xFA \<or> p 3 \<noteq> 0xFF \<or> p 4 \<noteq> 0x0D then st
      else
        let m = native_address device;
            i = next_uav (uavs st) m;
            UAV = (uavs st ! i)\<lparr>last_seen := now, rssi := payload_rssi device, flag := 1, mac := m\<rparr>;
            t = p 6 AND 0xF0;
            UAV' =
              (if t = 0x00 then
                 (let b = decodeBasicIDMessage lib (basic stk)
                            (encoded_at p 6 (sizeof_BasicID_encoded lib))
                  in UAV\<lparr>uav_id := strncpy (ODID_ID_SIZE lib) (UASID b)\<rparr>)
               else if t = 0x10 then
                 (let l = decodeLocationMessage lib (loc stk)
                            (encoded_at p 6 (sizeof_Location_encoded lib))
                  in UAV\<lparr>lat_d := Latitude l, long_d := Longitude l,
                          altitude_msl := c_int (AltitudeGeo l), height_agl := c_int (Height l),
                          speed := c_int (SpeedHorizontal l), heading := c_int (Direction l)\<rparr>)
               else if t = 0x40 then
                 (let s = decodeSystemMessage lib (sys stk)
                            (encoded_at p 6 (sizeof_System_encoded lib))
                  in UAV\<lparr>base_lat_d := OperatorLatitude s, base_long_d := OperatorLongitude s\<rparr>)
               else if t = 0x50 then
                 (let q = decodeOperatorIDMessage lib (op stk)
                            (encoded_at p 6 (sizeof_OperatorID_encoded lib))
                  in UAV\<lparr>op_id := strncpy (ODID_ID_SIZE lib) (OperatorId q)\<rparr>)
               else UAV)
        in st\<lparr>uavs := (uavs st)[i := UAV'],
              printQueue := xQueueSendFromISR QUEUE_LENGTH (printQueue st) UAV'\<rparr>)"

section \<open>Detector nodes: the WiFi promiscuous callback\<close>

datatype wifi_promiscuous_pkt_type_t = WIFI_PKT_MGMT | WIFI_PKT_CTRL | WIFI_PKT_DATA | WIFI_PKT_MISC

text \<open>
  The captured packet: the memory behind \<open>packet->payload\<close> (the callback reads it at
  offsets it does not always check against \<open>sig_len\<close>), \<open>rx_ctrl.sig_len\<close> and
  \<open>rx_ctrl.rssi\<close>.
\<close>

record wifi_pkt =
  payload :: "nat \<Rightarrow> u8"
  sig_len :: nat
  rx_rssi :: int

definition nan_dest :: mac6 where
  "nan_dest = (0x51, 0x6f, 0x9a, 0x01, 0x00, 0x00)"

definition mac_at :: "(nat \<Rightarrow> u8) \<Rightarrow> nat \<Rightarrow> mac6" where
  "mac_at p k = (p k, p (k + 1), p (k + 2), p (k + 3), p (k + 4), p (k + 5))"

text \<open>
  The local \<open>UAV\<close> that both carriers build from the decoded pack: zeroed, then the MAC,
  RSSI and time stamp, then only the fields whose validity flag is set.
\<close>

definition uav_of_pack :: "nat \<Rightarrow> ODID_UAS_Data \<Rightarrow> mac6 \<Rightarrow> int \<Rightarrow> u32 \<Rightarrow> uav_data" where
  "uav_of_pack id_size U m r now =
     (let UAV = uav_zero\<lparr>mac := m, rssi := r, last_seen := now\<rparr>;
          UAV = (if BasicIDValid0 U
                 then UAV\<lparr>uav_id := strncpy id_size (UASID (BasicID0 U))\<rparr> else UAV);
          UAV = (if LocationValid U
                 then UAV\<lparr>lat_d := Latitude (Location U), long_d := Longitude (Location U),
                          altitude_msl := c_int (AltitudeGeo (Location U)),
                          height_agl := c_int (Height (Location U)),
                          speed := c_int (SpeedHorizontal (Location U)),
                          heading := c_int (Direction (Location U))\<rparr>
                 else UAV);
          UAV = (if SystemValid U
                 then UAV\<lparr>base_lat_d := OperatorLatitude (System U),
                          base_long_d := OperatorLongitude (System U)\<rparr>
                 else UAV)
      in if OperatorIDValid U
         then UAV\<lparr>op_id := strncpy id_size (OperatorId (OperatorID U))\<rparr> else UAV)"

text \<open>
  \<open>stored = next_uav(UAV.mac); *stored = UAV; stored->flag = 1;\<close> followed by the send
  from the ISR. \<open>next\<close> is the variant's \<open>next_uav\<close>.
\<close>

definition wifi_store ::
  "(uav_data list \<Rightarrow> mac6 \<Rightarrow> nat) \<Rightarrow> uav_data \<Rightarrow> node_state \<Rightarrow> node_state" where
  "wifi_store next UAV st =
     (let i = next (uavs st) (mac UAV);
          stored = UAV\<lparr>flag := 1\<rparr>
      in st\<lparr>uavs := (uavs st)[i := stored],
            printQueue := xQueueSendFromISR QUEUE_LENGTH (printQueue st) stored\<rparr>)"

text \<open>\<open>UAS_data\<close> after \<open>memset(&UAS_data, 0, sizeof(UAS_data))\<close>.\<close>

definition UAS_zero :: ODID_UAS_Data where
  "UAS_zero = \<lparr>BasicIDValid0 = False, BasicID0 = \<lparr>UASID = []\<rparr>,
                LocationValid = False,
                Location = \<lparr>Latitude = 0, Longitude = 0, AltitudeGeo = 0,
                            Height = 0, SpeedHorizontal = 0, Direction = 0\<rparr>,
                SystemValid = False,
                System = \<lparr>OperatorLatitude = 0, OperatorLongitude = 0\<rparr>,
                OperatorIDValid = False, OperatorID = \<lparr>OperatorId = []\<rparr>\<rparr>"

text \<open>
  The information-element scan of the beacon branch, from \<open>offset\<close> on: a matching
  vendor element with \<open>offset + 7 < length\<close> has its pack decoded into the zeroed
  \<open>UAS_data\<close> and stored; the scan goes on after every element that fits the frame.
\<close>

function beacon_scan ::
  "(uav_data list \<Rightarrow> mac6 \<Rightarrow> nat) \<Rightarrow> odid_lib \<Rightarrow> u32 \<Rightarrow> wifi_pkt \<Rightarrow> nat \<Rightarrow> node_state \<Rightarrow> node_state" where
  "beacon_scan next lib now pkt offset st =
     (if offset < sig_len pkt then
        (if offset + unat (payload pkt (offset + 1)) + 2 > sig_len pkt then st
         else
           beacon_scan next lib now pkt (offset + unat (payload pkt (offset + 1)) + 2)
             (if payload pkt offset = 0xdd \<and>
                 ((payload pkt (offset + 2) = 0x90 \<and> payload pkt (offset + 3) = 0x3a \<and>
                   payload pkt (offset + 4) = 0xe6) \<or>
                  (payload pkt (offset + 2) = 0xfa \<and> payload pkt (offset + 3) = 0x0b \<and>
                   payload pkt (offset + 4) = 0xbc)) \<and>
                 offset + 7 < sig_len pkt
              then
                (let U = odid_message_process_pack lib UAS_zero
                           (\<lambda>k. payload pkt (offset + 7 + k)) (sig_len pkt - (offset + 7))
                 in wifi_store next
                      (uav_of_pack (ODID_ID_SIZE lib) U (mac_at (payload pkt) 10) (rx_rssi pkt) now)
                      (st\<lparr>UAS_data := U\<rparr>))
              else st))
      else st)"
  by pat_completeness auto
termination
  by (relation "measure (\<lambda>(next, lib, now, pkt, offset, st). sig_len pkt - offset)") auto

text \<open>
  \<open>wifiCallback\<close> (\<open>callback\<close> in node-mode-dualcore), with the variant's \<open>next_uav\<close>
  as \<open>next\<close>. \<open>now\<close> stands for every value \<open>millis()\<close> returns while one frame is
  handled.
\<close>

definition wifiCallback ::
  "(uav_data list \<Rightarrow> mac6 \<Rightarrow> nat) \<Rightarrow> odid_lib \<Rightarrow> u32 \<Rightarrow> wifi_promiscuous_pkt_type_t \<Rightarrow>
     wifi_pkt \<Rightarrow> node_state \<Rightarrow> node_state" where
  "wifiCallback next lib now type pkt st =
     (if type \<noteq> WIFI_PKT_MGMT then st
      else if mac_at (payload pkt) 4 = nan_dest then
        (let (rc, U) = odid_wifi_receive_message_pack_nan_action_frame lib (UAS_data st)
                         (payload pkt) (sig_len pkt)
         in if rc = 0
            then wifi_store next
                   (uav_of_pack (ODID_ID_SIZE lib) U (mac_at (payload pkt) 10) (rx_rssi pkt) now)
                   (st\<lparr>UAS_data := U\<rparr>)
            else st\<lparr>UAS_data := U\<rparr>)
      else if payload pkt 0 = 0x80 then beacon_scan next lib now pkt 36 st
      else st)"




section \<open>Detector nodes: runs of BLE advertisements and the fields they carry\<close>











text \<open>The fields a Location message fills, and those a System message fills.\<close>

definition position_of :: "uav_data \<Rightarrow> real \<times> real \<times> int \<times> int \<times> int \<times> int" where
  "position_of u = (lat_d u, long_d u, altitude_msl u, height_agl u, speed u, heading u)"


section \<open>Example inputs\<close>

text \<open>
  Example records, as a detector node prints them:
  \<open>{"mac":"aa:bb:cc:dd:ee:ff","node_id":"A1B2"}\<close>, the same drone reported by
  node \<open>C3D4\<close>, and a heartbeat record without a \<open>mac\<close> field.
\<close>

definition json_field :: "string \<Rightarrow> string \<Rightarrow> string" where
  "json_field key val = [dquote] @ key @ [dquote, CHR '':'', dquote] @ val @ [dquote]"

definition ex_record_a1b2 :: string where
  "ex_record_a1b2 = ''{'' @ json_field ''mac'' ''aa:bb:cc:dd:ee:ff'' @ '','' @
                     json_field ''node_id'' ''A1B2'' @ ''}''"

definition ex_record_c3d4 :: string where
  "ex_record_c3d4 = ''{'' @ json_field ''mac'' ''aa:bb:cc:dd:ee:ff'' @ '','' @
                     json_field ''node_id'' ''C3D4'' @ ''}''"

definition ex_heartbeat :: string where
  "ex_heartbeat = ''{'' @ json_field ''heartbeat'' ''node_active'' @ ''}''"

text \<open>
  Example tables: one whose first slot holds a drone with an address beginning with
  \<open>00\<close> while the other slots are zeroed, and a full table of eight drones with the
  time stamps 500, 100, 300, 100, 900, 700, 800, 600.
\<close>

definition ex_mac_new :: mac6 where
  "ex_mac_new = (0xaa, 0xbb, 0xcc, 0xdd, 0xee, 0xff)"

definition ex_mac_00 :: mac6 where
  "ex_mac_00 = (0x00, 0x12, 0x34, 0x56, 0x78, 0x9a)"

definition ex_drone :: "mac6 \<Rightarrow> u32 \<Rightarrow> string \<Rightarrow> uav_data" where
  "ex_drone m t ident = uav_zero\<lparr>mac := m, last_seen := t, uav_id := ident, flag := 1\<rparr>"

definition ex_uavs_00 :: "uav_data list" where
  "ex_uavs_00 = ex_drone ex_mac_00 5000 ''DRONE-A'' # replicate 7 uav_zero"

definition ex_uavs_full :: "uav_data list" where
  "ex_uavs_full =
     [ex_drone (0x10, 0, 0, 0, 0, 0) 500 ''DRONE-0'', ex_drone (0x10, 0, 0, 0, 0, 1) 100 ''DRONE-1'',
      ex_drone (0x10, 0, 0, 0, 0, 2) 300 ''DRONE-2'', ex_drone (0x10, 0, 0, 0, 0, 3) 100 ''DRONE-3'',
      ex_drone (0x10, 0, 0, 0, 0, 4) 900 ''DRONE-4'', ex_drone (0x10, 0, 0, 0, 0, 5) 700 ''DRONE-5'',
      ex_drone (0x10, 0, 0, 0, 0, 6) 800 ''DRONE-6'', ex_drone (0x10, 0, 0, 0, 0, 7) 600 ''DRONE-7'']"

text \<open>
  A stand-in for the library, for evaluating examples only (every theorem below holds
  for any \<open>odid_lib\<close>): all encoded sizes are 25 and \<open>ODID_ID_SIZE\<close> is 20, as in
  \<open>opendroneid.h\<close>; each single-message decoder reads a few bytes of the message.
  \<open>ex_stack\<close> is an arbitrary content of the callback's uninitialised locals.
\<close>

definition bytes_to_string :: "u8 list \<Rightarrow> string" where
  "bytes_to_string bs = map (\<lambda>w. char_of (unat w)) (takeWhile (\<lambda>w. w \<noteq> 0) bs)"

definition ex_lib :: odid_lib where
  "ex_lib = \<lparr>ODID_ID_SIZE = 20,
             sizeof_BasicID_encoded = 25, sizeof_Location_encoded = 25,
             sizeof_System_encoded = 25, sizeof_OperatorID_encoded = 25,
             decodeBasicIDMessage = (\<lambda>b msg. b\<lparr>UASID := bytes_to_string (take 20 (drop 2 msg))\<rparr>),
             decodeLocationMessage = (\<lambda>l msg. l\<lparr>Latitude := real (unat (msg ! 5)),
                                                   Longitude := real (unat (msg ! 9)),
                                                   AltitudeGeo := real (unat (msg ! 15))\<rparr>),
             decodeSystemMessage = (\<lambda>s msg. s\<lparr>OperatorLatitude := real (unat (msg ! 2)),
                                                 OperatorLongitude := real (unat (msg ! 6))\<rparr>),
             decodeOperatorIDMessage = (\<lambda>p msg. p\<lparr>OperatorId := bytes_to_string (take 20 (drop 2 msg))\<rparr>),
             odid_message_process_pack = (\<lambda>U p n. U),
             odid_wifi_receive_message_pack_nan_action_frame = (\<lambda>U p n. (- 1, U))\<rparr>"

definition ex_stack :: stack_locals where
  "ex_stack = \<lparr>basic = \<lparr>UASID = ''?stack?''\<rparr>,
               loc = \<lparr>Latitude = 12345, Longitude = - 999, AltitudeGeo = 77, Height = 3,
                      SpeedHorizontal = 1, Direction = 2\<rparr>,
               sys = \<lparr>OperatorLatitude = 55, OperatorLongitude = 66\<rparr>,
               op = \<lparr>OperatorId = ''?stack?''\<rparr>\<rparr>"

definition ex_adv :: "mac6 \<Rightarrow> u8 list \<Rightarrow> ble_adv" where
  "ex_adv m svc = \<lparr>haveServiceData = True, serviceData = svc, address = m, adv_rssi = - 60\<rparr>"


definition ex_node :: "uav_data list \<Rightarrow> node_state" where
  "ex_node tbl = \<lparr>uavs = tbl, printQueue = [], UAS_data = UAS_zero\<rparr>"

definition ex_loc_msg :: "u8 list" where
  "ex_loc_msg = [0x12, 0, 0, 0, 0, 47, 0, 0, 0, 122, 0, 0, 0, 0, 0, 100] @ replicate 9 0"

definition ex_tracked :: node_state where
  "ex_tracked = ex_node (ex_drone ex_mac_new 1000 ''DRONE1'' # replicate 7 uav_zero)"

definition ex_full_queue :: "uav_data list" where
  "ex_full_queue = replicate 16 (ex_drone ex_mac_00 5000 ''DRONE-A'')"

text \<open>
  A raw advertisement of eight bytes whose Basic ID message has two bytes; the memory
  behind it still holds bytes of an earlier, longer advertisement.
\<close>

definition mem_of :: "u8 list \<Rightarrow> nat \<Rightarrow> u8" where
  "mem_of bs k = (if k < length bs then bs ! k else 0)"

definition ex_short_payload :: ble_payload_adv where
  "ex_short_payload =
     \<lparr>payloadLength = 8,
      adv_payload = mem_of [0x07, 0x16, 0xFA, 0xFF, 0x0D, 0x01, 0x02, 0x12, 0x44, 0x52, 0x4f, 0x4e,
                            0x45, 0x39],
      native_address = ex_mac_new, payload_rssi = - 60\<rparr>"

text \<open>
  An empty captured frame, and two decoded WiFi packs: one with only a Basic ID, one
  with only a Location.
\<close>

definition ex_pkt :: wifi_pkt where
  "ex_pkt = \<lparr>payload = mem_of [], sig_len = 0, rx_rssi = - 70\<rparr>"










section \<open>Theorems\<close>

lemma next_cursor_unat:
  "0 < num \<Longrightarrow> num \<le> 256 \<Longrightarrow> unat (next_cursor idx num) = (unat idx + 1) mod num"
proof -
  assume a: "0 < num" "num \<le> 256"
  have "(unat idx + 1) mod num < num" using a by simp
  also have "num \<le> 2 ^ LENGTH(8)" using a by simp
  finally have "(unat idx + 1) mod num < 2 ^ LENGTH(8)" .
  then show ?thesis
    unfolding next_cursor_def by (simp add: unat_of_nat take_bit_nat_eq_self)
qed

text \<open>
  C9. When the dwell interval has elapsed (\<open>now - lastHop \<ge> interval\<close>), the loop step
  toggles the band flag, advances the cursor of the band that was current by one modulo
  the length of its channel list, leaves the other band's cursor unchanged and records
  \<open>now\<close> as the last hop; when the interval has not elapsed, the scheduler state is
  returned unchanged.
\<close>

theorem C9_hop_scheduler:
  "(now - lastHop s \<ge> interval \<longrightarrow>
      on5GHz (loop_hop interval now s) = (\<not> on5GHz s) \<and>
      lastHop (loop_hop interval now s) = now \<and>
      (on5GHz s \<longrightarrow>
         unat (chanIdx5 (loop_hop interval now s)) = (unat (chanIdx5 s) + 1) mod NUM_5G_CH \<and>
         chanIdx24 (loop_hop interval now s) = chanIdx24 s) \<and>
      (\<not> on5GHz s \<longrightarrow>
         unat (chanIdx24 (loop_hop interval now s)) = (unat (chanIdx24 s) + 1) mod NUM_24G_CH \<and>
         chanIdx5 (loop_hop interval now s) = chanIdx5 s)) \<and>
   (\<not> now - lastHop s \<ge> interval \<longrightarrow> loop_hop interval now s = s)"
proof -
  have n5: "0 < NUM_5G_CH" "NUM_5G_CH \<le> 256"
    by (simp_all add: NUM_5G_CH_def channels_5g_def)
  have n24: "0 < NUM_24G_CH" "NUM_24G_CH \<le> 256"
    by (simp_all add: NUM_24G_CH_def channels_24g_def)
  show ?thesis
    using next_cursor_unat [OF n5, of "chanIdx5 s"] next_cursor_unat [OF n24, of "chanIdx24 s"]
    by (simp add: loop_hop_def hopChannel_def Let_def)
qed

theorem C9_hop_scheduler_witness:
  "(HOP_INTERVAL_MS \<le> 150 - lastHop hop_init \<and> \<not> on5GHz hop_init \<and>
      on5GHz (loop_hop HOP_INTERVAL_MS 150 hop_init) \<and>
      lastHop (loop_hop HOP_INTERVAL_MS 150 hop_init) = 150 \<and>
      unat (chanIdx24 (loop_hop HOP_INTERVAL_MS 150 hop_init)) = 1 \<and>
      chanIdx5 (loop_hop HOP_INTERVAL_MS 150 hop_init) = 0) \<and>
   (HOP_INTERVAL_MS \<le> 400 - lastHop (hop_init\<lparr>on5GHz := True, chanIdx5 := 24, lastHop := 250\<rparr>) \<and>
      \<not> on5GHz (loop_hop HOP_INTERVAL_MS 400 (hop_init\<lparr>on5GHz := True, chanIdx5 := 24, lastHop := 250\<rparr>)) \<and>
      unat (chanIdx5 (loop_hop HOP_INTERVAL_MS 400 (hop_init\<lparr>on5GHz := True, chanIdx5 := 24, lastHop := 250\<rparr>))) = 0 \<and>
      chanIdx24 (loop_hop HOP_INTERVAL_MS 400 (hop_init\<lparr>on5GHz := True, chanIdx5 := 24, lastHop := 250\<rparr>)) = 0) \<and>
   (\<not> HOP_INTERVAL_MS \<le> 299 - lastHop (hop_init\<lparr>lastHop := 250\<rparr>) \<and>
      loop_hop HOP_INTERVAL_MS 299 (hop_init\<lparr>lastHop := 250\<rparr>) = hop_init\<lparr>lastHop := 250\<rparr>)"
  using C9_hop_scheduler [of HOP_INTERVAL_MS 150 hop_init]
        C9_hop_scheduler [of HOP_INTERVAL_MS 400 "hop_init\<lparr>on5GHz := True, chanIdx5 := 24, lastHop := 250\<rparr>"]
        C9_hop_scheduler [of HOP_INTERVAL_MS 299 "hop_init\<lparr>lastHop := 250\<rparr>"]
  by (simp add: hop_init_def HOP_INTERVAL_MS_def NUM_24G_CH_def NUM_5G_CH_def
        channels_24g_def channels_5g_def)

subsection \<open>Head end: field extraction and table scans\<close>

lemma copy_value_length: "length (copy_value s room) \<le> room"
  by (induction s room rule: copy_value.induct) auto

lemma extract_length:
  "extractJsonString json key [] outSize = (n, v) \<Longrightarrow> n = length v \<and> length v \<le> outSize - 1"
  by (auto simp: extractJsonString_def Let_def copy_value_length split: option.splits)

lemma dedupInit_Cons: "dedupInit = dedup_zero # replicate 15 dedup_zero"
  by (simp add: dedupInit_def DEDUP_MAX_DRONES_def eval_nat_numeral)

lemma first_index_replicate_None: "\<not> P x \<Longrightarrow> first_index P (replicate n x) i = None"
  by (induction n arbitrary: i) auto

lemma json_nonempty: "looksLikeJSON l \<Longrightarrow> length l \<noteq> 0"
  by (auto simp: looksLikeJSON_def Let_def)

text \<open>A record for a MAC the empty table does not know claims slot 0 and is forwarded.\<close>

lemma step_new:
  assumes "extractJsonString l ''mac'' [] 18 = (length X, X)" "X \<noteq> []"
  shows "processJsonLine now l (st\<lparr>dedupTable := dedupInit\<rparr>) =
     st\<lparr>dedupTable := \<lparr>dmac = X, windowStart = now, lastSeen = now, active = True,
            firstNodeId = strncpy 7 (snd (extractJsonString l ''node_id'' [] 8)),
            dupsBlocked = 0\<rparr> # replicate 15 dedup_zero,
        serial_out := serial_out st @ [Println l], msgForwarded := msgForwarded st + 1,
        msgReceived := msgReceived st + 1\<rparr>"
proof -
  have len: "length X \<le> 17" using extract_length [OF assms(1)] by simp
  show ?thesis using assms len
    by (simp add: processJsonLine_def dedupFind_def dedupAlloc_def dedupInit_Cons dedup_zero_def
        dedup_fresh_def strncpy_def forward_def Let_def first_index_replicate_None
        split: prod.splits)
qed

text \<open>A record for the MAC held by the first slot: new window or suppression.\<close>

lemma step_known_head:
  assumes "extractJsonString l ''mac'' [] 18 = (length X, X)" "X \<noteq> []"
    and "dedupTable st = e # rest" "active e" "dmac e = X"
  shows "processJsonLine now l st =
     (if DEDUP_WINDOW_MS \<le> now - windowStart e
      then st\<lparr>dedupTable := e\<lparr>lastSeen := now, windowStart := now, dupsBlocked := 0,
                    firstNodeId := strncpy 7 (snd (extractJsonString l ''node_id'' [] 8))\<rparr> # rest,
              serial_out := serial_out st @ [Println l], msgForwarded := msgForwarded st + 1,
              msgReceived := msgReceived st + 1\<rparr>
      else st\<lparr>dedupTable := e\<lparr>lastSeen := now, dupsBlocked := dupsBlocked e + 1\<rparr> # rest,
              msgSuppressed := msgSuppressed st + 1, msgReceived := msgReceived st + 1\<rparr>)"
  using assms
  by (simp add: processJsonLine_def dedupFind_def forward_def Let_def split: prod.splits)

lemma ex_record_a1b2_mac:
  "extractJsonString ex_record_a1b2 ''mac'' [] 18 = (17, ''aa:bb:cc:dd:ee:ff'')"
  by (simp add: ex_record_a1b2_def json_field_def extractJsonString_def json_pattern_def dquote_def)

lemma ex_record_c3d4_mac:
  "extractJsonString ex_record_c3d4 ''mac'' [] 18 = (17, ''aa:bb:cc:dd:ee:ff'')"
  by (simp add: ex_record_c3d4_def json_field_def extractJsonString_def json_pattern_def dquote_def)

lemma ex_records_json: "looksLikeJSON ex_record_a1b2" "looksLikeJSON ex_record_c3d4"
  "looksLikeJSON ex_heartbeat"
  by (simp_all add: ex_record_a1b2_def ex_record_c3d4_def ex_heartbeat_def json_field_def
      looksLikeJSON_def dquote_def is_blank_def Let_def)

lemma ex_heartbeat_mac: "extractJsonString ex_heartbeat ''mac'' [] 18 = (0, [])"
  by (simp add: ex_heartbeat_def json_field_def extractJsonString_def json_pattern_def dquote_def)

text \<open>
  C3. Three recognized records whose \<open>mac\<close> field is the same non-empty \<open>X\<close> arrive at
  the empty dedup table at 0 ms, 100 ms and 600 ms (\<open>DEDUP_WINDOW_MS = 500\<close>). The
  first and the third are printed to the local output and the second is not; the second
  leaves the entry of \<open>X\<close> (slot 0) with one blocked duplicate, \<open>lastSeen = 100\<close> and
  \<open>windowStart\<close> still 0.
\<close>

theorem C3_dedup_window:
  assumes "looksLikeJSON l1" "looksLikeJSON l2" "looksLikeJSON l3"
    and "extractJsonString l1 ''mac'' [] 18 = (length X, X)"
    and "extractJsonString l2 ''mac'' [] 18 = (length X, X)"
    and "extractJsonString l3 ''mac'' [] 18 = (length X, X)"
    and "X \<noteq> []"
  shows "serial_out (home_run home_init [Arrival 0 l1]) = [Println l1] \<and>
         serial_out (home_run home_init [Arrival 0 l1, Arrival 100 l2]) = [Println l1] \<and>
         serial_out (home_run home_init [Arrival 0 l1, Arrival 100 l2, Arrival 600 l3])
           = [Println l1, Println l3] \<and>
         dedupFind (dedupTable (home_run home_init [Arrival 0 l1])) X = Some 0 \<and>
         dedupFind (dedupTable (home_run home_init [Arrival 0 l1, Arrival 100 l2])) X = Some 0 \<and>
         dupsBlocked (dedupTable (home_run home_init [Arrival 0 l1]) ! 0) = 0 \<and>
         dupsBlocked (dedupTable (home_run home_init [Arrival 0 l1, Arrival 100 l2]) ! 0) = 1 \<and>
         lastSeen (dedupTable (home_run home_init [Arrival 0 l1]) ! 0) = 0 \<and>
         lastSeen (dedupTable (home_run home_init [Arrival 0 l1, Arrival 100 l2]) ! 0) = 100 \<and>
         windowStart (dedupTable (home_run home_init [Arrival 0 l1]) ! 0) = 0 \<and>
         windowStart (dedupTable (home_run home_init [Arrival 0 l1, Arrival 100 l2]) ! 0) = 0 \<and>
         msgSuppressed (home_run home_init [Arrival 0 l1, Arrival 100 l2]) = 1"
proof -
  let ?e1 = "\<lparr>dmac = X, windowStart = 0, lastSeen = 0, active = True,
            firstNodeId = strncpy 7 (snd (extractJsonString l1 ''node_id'' [] 8)), dupsBlocked = 0\<rparr>"
  let ?rest = "replicate 15 dedup_zero"
  have s1: "home_run home_init [Arrival 0 l1] =
      \<lparr>dedupTable = ?e1 # ?rest, serial_out = [Println l1], msgReceived = 1,
       msgForwarded = 1, msgSuppressed = 0, msgNonJson = 0\<rparr>"
    using step_new [OF assms(4) assms(7), of 0 home_init] assms(1) json_nonempty [OF assms(1)]
    by (simp add: home_run_def processLine_def home_init_def)
  have s2: "home_run home_init [Arrival 0 l1, Arrival 100 l2] =
      \<lparr>dedupTable = ?e1\<lparr>lastSeen := 100, dupsBlocked := 1\<rparr> # ?rest, serial_out = [Println l1],
       msgReceived = 2, msgForwarded = 1, msgSuppressed = 1, msgNonJson = 0\<rparr>"
  proof -
    have "home_run home_init [Arrival 0 l1, Arrival 100 l2] =
          processJsonLine 100 l2 (home_run home_init [Arrival 0 l1])"
      using assms(2) json_nonempty [OF assms(2)] by (simp add: home_run_def processLine_def)
    also have "\<dots> = \<lparr>dedupTable = ?e1\<lparr>lastSeen := 100, dupsBlocked := 1\<rparr> # ?rest,
       serial_out = [Println l1], msgReceived = 2, msgForwarded = 1, msgSuppressed = 1,
       msgNonJson = 0\<rparr>"
      unfolding s1
      by (subst step_known_head [OF assms(5) assms(7), where e = ?e1 and rest = ?rest])
         (simp_all add: DEDUP_WINDOW_MS_def)
    finally show ?thesis .
  qed
  have s3: "home_run home_init [Arrival 0 l1, Arrival 100 l2, Arrival 600 l3] =
      \<lparr>dedupTable = ?e1\<lparr>lastSeen := 600, windowStart := 600, dupsBlocked := 0,
             firstNodeId := strncpy 7 (snd (extractJsonString l3 ''node_id'' [] 8))\<rparr> # ?rest,
       serial_out = [Println l1, Println l3],
       msgReceived = 3, msgForwarded = 2, msgSuppressed = 1, msgNonJson = 0\<rparr>"
  proof -
    have "home_run home_init [Arrival 0 l1, Arrival 100 l2, Arrival 600 l3] =
          processJsonLine 600 l3 (home_run home_init [Arrival 0 l1, Arrival 100 l2])"
      using assms(3) json_nonempty [OF assms(3)] by (simp add: home_run_def processLine_def)
    also have "\<dots> = \<lparr>dedupTable = ?e1\<lparr>lastSeen := 600, windowStart := 600, dupsBlocked := 0,
             firstNodeId := strncpy 7 (snd (extractJsonString l3 ''node_id'' [] 8))\<rparr> # ?rest,
       serial_out = [Println l1, Println l3],
       msgReceived = 3, msgForwarded = 2, msgSuppressed = 1, msgNonJson = 0\<rparr>"
      unfolding s2
      by (subst step_known_head [OF assms(6) assms(7),
            where e = "?e1\<lparr>lastSeen := 100, dupsBlocked := 1\<rparr>" and rest = ?rest])
         (simp_all add: DEDUP_WINDOW_MS_def)
    finally show ?thesis .
  qed
  show ?thesis
    unfolding s1 s2 s3 using assms(7) by (simp add: dedupFind_def)
qed

theorem C3_dedup_window_witness:
  "looksLikeJSON ex_record_a1b2 \<and> looksLikeJSON ex_record_c3d4 \<and>
   extractJsonString ex_record_a1b2 ''mac'' [] 18 = (17, ''aa:bb:cc:dd:ee:ff'') \<and>
   extractJsonString ex_record_c3d4 ''mac'' [] 18 = (17, ''aa:bb:cc:dd:ee:ff'') \<and>
   serial_out (home_run home_init
       [Arrival 0 ex_record_a1b2, Arrival 100 ex_record_c3d4, Arrival 600 ex_record_c3d4])
     = [Println ex_record_a1b2, Println ex_record_c3d4] \<and>
   dupsBlocked (dedupTable (home_run home_init
       [Arrival 0 ex_record_a1b2, Arrival 100 ex_record_c3d4]) ! 0) = 1 \<and>
   lastSeen (dedupTable (home_run home_init
       [Arrival 0 ex_record_a1b2, Arrival 100 ex_record_c3d4]) ! 0) = 100 \<and>
   windowStart (dedupTable (home_run home_init
       [Arrival 0 ex_record_a1b2, Arrival 100 ex_record_c3d4]) ! 0) = 0"
  using C3_dedup_window [of ex_record_a1b2 ex_record_c3d4 ex_record_c3d4 "''aa:bb:cc:dd:ee:ff''"]
    ex_records_json ex_record_a1b2_mac ex_record_c3d4_mac
  by simp

text \<open>
  C7. A recognized record from which \<open>extractJsonString\<close> obtains no \<open>mac\<close> value
  (result 0) is printed to the local output at once, whatever the dedup table holds;
  the table and the other counters are left as they were.
\<close>

theorem C7_dedup_passthrough:
  assumes "looksLikeJSON line" and "fst (extractJsonString line ''mac'' [] 18) = 0"
  shows "processLine now line st =
           st\<lparr>serial_out := serial_out st @ [Println line],
              msgForwarded := msgForwarded st + 1\<rparr> \<and>
         processJsonLine now line st = processLine now line st"
proof -
  obtain n v where e: "extractJsonString line ''mac'' [] 18 = (n, v)"
    by (cases "extractJsonString line ''mac'' [] 18")
  with assms(2) have n: "n = 0" by simp
  have pj: "processJsonLine now line st = forward line st"
    by (simp add: processJsonLine_def e n)
  have pl: "processLine now line st = processJsonLine now line st"
    using assms(1) json_nonempty [OF assms(1)] by (simp add: processLine_def)
  show ?thesis by (simp add: pl pj forward_def)
qed

theorem C7_dedup_passthrough_witness:
  "looksLikeJSON ex_heartbeat \<and> fst (extractJsonString ex_heartbeat ''mac'' [] 18) = 0 \<and>
   processLine 100 ex_heartbeat (home_run home_init [Arrival 0 ex_record_a1b2]) =
     (home_run home_init [Arrival 0 ex_record_a1b2])
       \<lparr>serial_out := [Println ex_record_a1b2, Println ex_heartbeat], msgForwarded := 2\<rparr>"
proof -
  have s: "home_run home_init [Arrival 0 ex_record_a1b2] =
      \<lparr>dedupTable = \<lparr>dmac = ''aa:bb:cc:dd:ee:ff'', windowStart = 0, lastSeen = 0, active = True,
            firstNodeId = strncpy 7 (snd (extractJsonString ex_record_a1b2 ''node_id'' [] 8)),
            dupsBlocked = 0\<rparr> # replicate 15 dedup_zero,
       serial_out = [Println ex_record_a1b2], msgReceived = 1,
       msgForwarded = 1, msgSuppressed = 0, msgNonJson = 0\<rparr>"
    using step_new [of ex_record_a1b2 "''aa:bb:cc:dd:ee:ff''" 0 home_init]
      ex_records_json(1) json_nonempty [OF ex_records_json(1)] ex_record_a1b2_mac
    by (simp add: home_run_def processLine_def home_init_def)
  show ?thesis
    using C7_dedup_passthrough [of ex_heartbeat 100 "home_run home_init [Arrival 0 ex_record_a1b2]"]
      ex_records_json(3) ex_heartbeat_mac
    unfolding s by simp
qed

subsection \<open>Head end: the table invariant\<close>

lemma inv_upto_inv: "inv_upto t tbl \<Longrightarrow> dedup_inv tbl"
  by (auto simp: inv_upto_def dedup_inv_def list_all_iff)

lemma inv_upto_mono: "inv_upto t tbl \<Longrightarrow> t \<le> t' \<Longrightarrow> inv_upto t' tbl"
  by (auto simp: inv_upto_def list_all_iff)

lemma first_index_None_iff: "first_index P xs i = None \<longleftrightarrow> (\<forall>x\<in>set xs. \<not> P x)"
  by (induction xs arbitrary: i) auto

lemma first_index_Some:
  "first_index P xs k = Some i \<Longrightarrow> k \<le> i \<and> i - k < length xs \<and> P (xs ! (i - k))"
proof (induction xs arbitrary: k)
  case Nil
  then show ?case by simp
next
  case (Cons x xs)
  show ?case
  proof (cases "P x")
    case True
    with Cons.prems show ?thesis by simp
  next
    case False
    with Cons.prems have "first_index P xs (Suc k) = Some i" by simp
    from Cons.IH [OF this] have ih: "Suc k \<le> i" "i - Suc k < length xs" "P (xs ! (i - Suc k))"
      by simp_all
    have eq: "i - k = Suc (i - Suc k)" using ih(1) by simp
    show ?thesis using ih unfolding eq by simp
  qed
qed

lemma filter_split_at:
  "i < length xs \<Longrightarrow>
     filter P xs = filter P (take i xs) @ (if P (xs ! i) then [xs ! i] else []) @ filter P (drop (Suc i) xs)"
  by (subst id_take_nth_drop [of i xs]) (simp_all del: append_take_drop_id)

lemma filter_update_at:
  "i < length xs \<Longrightarrow>
     filter P (xs[i := y]) = filter P (take i xs) @ (if P y then [y] else []) @ filter P (drop (Suc i) xs)"
  by (simp add: upd_conv_take_nth_drop)

text \<open>Overwriting slot i by an active entry that keeps the slot's key and activity.\<close>
lemma inv_upto_touch:
  assumes "inv_upto t tbl" "i < length tbl" "active (tbl ! i)" "active e" "dmac e = dmac (tbl ! i)"
    "windowStart e \<le> lastSeen e" "lastSeen e \<le> t'" "t \<le> t'"
  shows "inv_upto t' (tbl[i := e])"
proof -
  have a: "filter active tbl = filter active (take i tbl) @ [tbl ! i] @ filter active (drop (Suc i) tbl)"
    using filter_split_at [OF assms(2), of active] assms(3) by simp
  have b: "filter active (tbl[i := e]) = filter active (take i tbl) @ [e] @ filter active (drop (Suc i) tbl)"
    using filter_update_at [OF assms(2), of active e] assms(4) by simp
  show ?thesis
    using inv_upto_mono [OF assms(1,8)] assms(5,6,7) unfolding inv_upto_def a b
    by (auto simp: list_all_iff)
qed

text \<open>Claiming slot i for a key no active entry holds.\<close>
lemma inv_upto_claim:
  assumes "inv_upto t tbl" "\<forall>x\<in>set tbl. \<not> (active x \<and> dmac x = dmac e)" "active e"
    "windowStart e \<le> lastSeen e" "lastSeen e \<le> t'" "t \<le> t'"
  shows "inv_upto t' (tbl[i := e])"
proof (cases "i < length tbl")
  case False
  then have "length tbl \<le> i" by simp
  then have "tbl[i := e] = tbl" by (rule list_update_beyond)
  then show ?thesis using inv_upto_mono [OF assms(1,6)] by simp
next
  case True
  have a: "filter active tbl = filter active (take i tbl) @ (if active (tbl ! i) then [tbl ! i] else []) @ filter active (drop (Suc i) tbl)"
    using filter_split_at [OF True, of active] by simp
  have b: "filter active (tbl[i := e]) = filter active (take i tbl) @ [e] @ filter active (drop (Suc i) tbl)"
    using filter_update_at [OF True, of active e] assms(3) by simp
  have nin: "dmac e \<notin> dmac ` set (filter active (take i tbl))"
       "dmac e \<notin> dmac ` set (filter active (drop (Suc i) tbl))"
    using assms(2) by (auto dest: in_set_takeD in_set_dropD)
  show ?thesis
    using inv_upto_mono [OF assms(1,6)] assms(4,5) nin unfolding inv_upto_def a b
    by (auto simp: list_all_iff split: if_splits)
qed

lemma clean_loop_filter:
  "filter active (fst (clean_loop now es)) =
     filter (\<lambda>e. \<not> (now - lastSeen e > DEDUP_STALE_MS)) (filter active es)"
  by (induction es) (auto simp: Let_def split: prod.splits)

lemma inv_upto_sweep:
  assumes "inv_upto t (dedupTable st)" "t \<le> now"
  shows "inv_upto now (dedupTable (dedupCleanStale now st))"
proof -
  have "dedupTable (dedupCleanStale now st) = fst (clean_loop now (dedupTable st))"
    by (simp add: dedupCleanStale_def split: prod.splits)
  then have "filter active (dedupTable (dedupCleanStale now st)) =
      filter (\<lambda>e. \<not> (now - lastSeen e > DEDUP_STALE_MS)) (filter active (dedupTable st))"
    by (simp add: clean_loop_filter)
  moreover have "distinct (map dmac (filter (\<lambda>e. \<not> (now - lastSeen e > DEDUP_STALE_MS))
      (filter active (dedupTable st))))"
  proof (rule distinct_map_filter)
    show "distinct (map dmac (filter active (dedupTable st)))"
      using assms(1) unfolding inv_upto_def by simp
  qed
  moreover have "list_all (\<lambda>e. windowStart e \<le> lastSeen e \<and> lastSeen e \<le> now)
      (filter (\<lambda>e. \<not> (now - lastSeen e > DEDUP_STALE_MS)) (filter active (dedupTable st)))"
    using inv_upto_mono [OF assms] unfolding inv_upto_def by (simp add: list_all_iff)
  ultimately show ?thesis
    unfolding inv_upto_def by simp
qed



lemma inv_upto_arrival:
  assumes "inv_upto t (dedupTable st)" "t \<le> now"
  shows "inv_upto now (dedupTable (processJsonLine now line st))"
proof -
  obtain n droneMac where e: "extractJsonString line ''mac'' [] 18 = (n, droneMac)"
    by (cases "extractJsonString line ''mac'' [] 18")
  obtain k nodeIdBuf where e2: "extractJsonString line ''node_id'' [] 8 = (k, nodeIdBuf)"
    by (cases "extractJsonString line ''node_id'' [] 8")
  have len: "length droneMac \<le> 17" using extract_length [OF e] by simp
  let ?tbl = "dedupTable st"
  show ?thesis
  proof (cases "n = 0")
    case True
    then show ?thesis
      using inv_upto_mono [OF assms] by (simp add: processJsonLine_def e forward_def)
  next
    case n: False
    show ?thesis
    proof (cases "dedupFind ?tbl droneMac")
      case None
      then have free: "\<forall>x\<in>set ?tbl. \<not> (active x \<and> dmac x = droneMac)"
        by (simp add: dedupFind_def first_index_None_iff)
      obtain tbl i where al: "dedupAlloc ?tbl droneMac = (tbl, i)"
        by (cases "dedupAlloc ?tbl droneMac")
      then have tbl: "tbl = ?tbl[i := dedup_fresh droneMac]"
        by (auto simp: dedupAlloc_def Let_def split: option.splits)
      let ?entry = "(tbl ! i)\<lparr>windowStart := now, lastSeen := now, dupsBlocked := 0,
                                      firstNodeId := strncpy 7 nodeIdBuf\<rparr>"
      have res: "dedupTable (processJsonLine now line st) = tbl[i := ?entry]"
        using n None al by (simp add: processJsonLine_def e e2 forward_def Let_def)
      show ?thesis
      proof (cases "i < length ?tbl")
        case True
        then have "tbl ! i = dedup_fresh droneMac" by (simp add: tbl)
        then have ent: "active ?entry" "dmac ?entry = droneMac"
          "windowStart ?entry \<le> lastSeen ?entry" "lastSeen ?entry \<le> now"
          using len by (simp_all add: dedup_fresh_def strncpy_def)
        have "tbl[i := ?entry] = ?tbl[i := ?entry]" by (simp add: tbl)
        moreover have "inv_upto now (?tbl[i := ?entry])"
          by (rule inv_upto_claim [OF assms(1) _ ent(1) ent(3) ent(4) assms(2)])
             (use free ent(2) in simp)
        ultimately show ?thesis by (simp add: res)
      next
        case False
        then have "length ?tbl \<le> i" by simp
        then have "tbl[i := ?entry] = ?tbl" by (simp add: tbl list_update_beyond)
        then show ?thesis using inv_upto_mono [OF assms] by (simp add: res)
      qed
    next
      case (Some i)
      from first_index_Some [OF Some [unfolded dedupFind_def]]
      have i: "i < length ?tbl" "active (?tbl ! i)" "dmac (?tbl ! i) = droneMac" by simp_all
      let ?entry = "(?tbl ! i)\<lparr>lastSeen := now\<rparr>"
      have old: "windowStart (?tbl ! i) \<le> lastSeen (?tbl ! i)" "lastSeen (?tbl ! i) \<le> t"
        using assms(1) i(1,2) unfolding inv_upto_def list_all_iff by (auto simp: in_set_conv_nth)
      then have ws: "windowStart (?tbl ! i) \<le> now" using assms(2) by simp
      show ?thesis
      proof (cases "DEDUP_WINDOW_MS \<le> now - windowStart (?tbl ! i)")
        case True
        let ?e' = "?entry\<lparr>windowStart := now, dupsBlocked := 0, firstNodeId := strncpy 7 nodeIdBuf\<rparr>"
        have res: "dedupTable (processJsonLine now line st) = ?tbl[i := ?e']"
          using n Some True by (simp add: processJsonLine_def e e2 forward_def Let_def)
        show ?thesis unfolding res
          by (rule inv_upto_touch [OF assms(1) i(1) i(2) _ _ _ _ assms(2)]) (use i in simp_all)
      next
        case False
        let ?e' = "?entry\<lparr>dupsBlocked := dupsBlocked ?entry + 1\<rparr>"
        have res: "dedupTable (processJsonLine now line st) = ?tbl[i := ?e']"
          using n Some False by (simp add: processJsonLine_def e e2 forward_def Let_def)
        show ?thesis unfolding res
          by (rule inv_upto_touch [OF assms(1) i(1) i(2) _ _ _ _ assms(2)]) (use i ws in simp_all)
      qed
    qed
  qed
qed

lemma inv_upto_step:
  assumes "inv_upto t (dedupTable st)" "t \<le> ev_time ev"
  shows "inv_upto (ev_time ev) (dedupTable (home_step st ev))"
proof (cases ev)
  case (Arrival now line)
  show ?thesis
    using inv_upto_arrival [OF assms(1), of now line] inv_upto_mono [OF assms(1), of now] assms(2)
    by (simp add: Arrival processLine_def)
next
  case (Sweep now)
  then show ?thesis using inv_upto_sweep [OF assms(1), of now] assms(2) by simp
qed

lemma inv_upto_trace:
  "inv_upto t (dedupTable st) \<Longrightarrow> sorted (t # map ev_time evs) \<Longrightarrow>
     list_all (\<lambda>s. dedup_inv (dedupTable s)) (home_trace st evs)"
proof (induction evs arbitrary: t st)
  case Nil
  then show ?case by simp
next
  case (Cons ev evs)
  have le: "t \<le> ev_time ev" using Cons.prems(2) by simp
  have inv: "inv_upto (ev_time ev) (dedupTable (home_step st ev))"
    by (rule inv_upto_step [OF Cons.prems(1) le])
  have "sorted (ev_time ev # map ev_time evs)" using Cons.prems(2) by simp
  from Cons.IH [OF inv this] inv_upto_inv [OF inv] show ?case by simp
qed

lemma inv_upto_init: "inv_upto 0 (dedupTable home_init)"
  by (simp add: inv_upto_def home_init_def dedupInit_def dedup_zero_def)

text \<open>
  C8. Starting from the table \<open>dedupInit\<close> builds, after every event of a run of
  arrivals and stale sweeps whose time stamps never decrease, each active entry has
  \<open>lastSeen \<ge> windowStart\<close> and no MAC is held by two active entries.
\<close>

theorem C8_dedup_invariant:
  "sorted (map ev_time evs) \<Longrightarrow>
     list_all (\<lambda>s. dedup_inv (dedupTable s)) (home_trace home_init evs)"
  by (rule inv_upto_trace [OF inv_upto_init]) simp

theorem C8_dedup_invariant_witness:
  "sorted (map ev_time [Arrival 0 ex_record_a1b2, Arrival 100 ex_record_c3d4, Sweep 40000]) \<and>
   list_all (\<lambda>s. dedup_inv (dedupTable s))
     (home_trace home_init [Arrival 0 ex_record_a1b2, Arrival 100 ex_record_c3d4, Sweep 40000])"
  using C8_dedup_invariant [of "[Arrival 0 ex_record_a1b2, Arrival 100 ex_record_c3d4, Sweep 40000]"]
  by simp

subsection \<open>Detector nodes: slot selection\<close>

lemma first_index_least:
  "first_index P xs k = Some i \<Longrightarrow> j < i - k \<Longrightarrow> \<not> P (xs ! j)"
proof (induction xs arbitrary: k j)
  case Nil
  then show ?case by simp
next
  case (Cons x xs)
  show ?case
  proof (cases "P x")
    case True
    with Cons.prems show ?thesis by simp
  next
    case False
    with Cons.prems have fi: "first_index P xs (Suc k) = Some i" by simp
    show ?thesis
    proof (cases j)
      case 0
      then show ?thesis using False by simp
    next
      case (Suc j')
      with Cons.prems(2) have "j' < i - Suc k" by simp
      from Cons.IH [OF fi this] show ?thesis by (simp add: Suc)
    qed
  qed
qed

lemma first_index_0:
  "first_index P xs 0 = Some i \<Longrightarrow> i < length xs \<and> P (xs ! i) \<and> (\<forall>j<i. \<not> P (xs ! j))"
  using first_index_Some [of P xs 0 i] first_index_least [of P xs 0 i] by auto

lemma first_index_exists:
  "\<exists>x\<in>set xs. P x \<Longrightarrow> \<exists>i. first_index P xs k = Some i"
  using first_index_None_iff [of P xs k] by (cases "first_index P xs k") auto

text \<open>
  The empty-slot scan as it is written: on a registry miss, both variants of
  \<open>next_uav\<close> claim the first slot whose first MAC byte \<open>mac[0]\<close> is zero,
  whatever its other five bytes. When no slot has a zero first byte, the scan claims
  nothing and the variant's last resort decides (the oldest-entry scan, or slot 0 in
  remoteid-mesh-dualcore-c5).
\<close>

lemma next_uav_first_byte_zero:
  assumes "\<forall>u\<in>set tbl. mac u \<noteq> m"
  shows "((\<exists>u\<in>set tbl. mac_byte0 (mac u) = 0) \<longrightarrow>
            next_uav tbl m < length tbl \<and>
            mac_byte0 (mac (tbl ! next_uav tbl m)) = 0 \<and>
            (\<forall>j < next_uav tbl m. mac_byte0 (mac (tbl ! j)) \<noteq> 0) \<and>
            next_uav_mesh tbl m = next_uav tbl m) \<and>
         ((\<forall>u\<in>set tbl. mac_byte0 (mac u) \<noteq> 0) \<longrightarrow>
            next_uav tbl m = oldest_scan (map last_seen tbl) 0 UINT32_MAX 0 \<and>
            next_uav_mesh tbl m = 0)"
proof -
  have miss: "first_index (\<lambda>u. mac u = m) tbl 0 = None"
    using assms by (simp add: first_index_None_iff)
  have part1: "next_uav tbl m < length tbl \<and>
            mac_byte0 (mac (tbl ! next_uav tbl m)) = 0 \<and>
            (\<forall>j < next_uav tbl m. mac_byte0 (mac (tbl ! j)) \<noteq> 0) \<and>
            next_uav_mesh tbl m = next_uav tbl m"
    if ex: "\<exists>u\<in>set tbl. mac_byte0 (mac u) = 0"
  proof -
    from first_index_exists [OF ex, of 0]
    obtain i where i: "first_index (\<lambda>u. mac_byte0 (mac u) = 0) tbl 0 = Some i" ..
    have n: "next_uav tbl m = i" "next_uav_mesh tbl m = i"
      by (simp_all add: next_uav_def next_uav_mesh_def miss i)
    show ?thesis unfolding n using first_index_0 [OF i] by simp
  qed
  have part2: "next_uav tbl m = oldest_scan (map last_seen tbl) 0 UINT32_MAX 0 \<and>
            next_uav_mesh tbl m = 0"
    if no: "\<forall>u\<in>set tbl. mac_byte0 (mac u) \<noteq> 0"
  proof -
    have none: "first_index (\<lambda>u. mac_byte0 (mac u) = 0) tbl 0 = None"
      using no by (simp add: first_index_None_iff)
    show ?thesis by (simp add: next_uav_def next_uav_mesh_def miss none)
  qed
  show ?thesis
  proof (rule conjI)
    show "(\<exists>u\<in>set tbl. mac_byte0 (mac u) = 0) \<longrightarrow>
            next_uav tbl m < length tbl \<and>
            mac_byte0 (mac (tbl ! next_uav tbl m)) = 0 \<and>
            (\<forall>j < next_uav tbl m. mac_byte0 (mac (tbl ! j)) \<noteq> 0) \<and>
            next_uav_mesh tbl m = next_uav tbl m"
      using part1 by (rule impI)
    show "(\<forall>u\<in>set tbl. mac_byte0 (mac u) \<noteq> 0) \<longrightarrow>
            next_uav tbl m = oldest_scan (map last_seen tbl) 0 UINT32_MAX 0 \<and>
            next_uav_mesh tbl m = 0"
      using part2 by (rule impI)
  qed
qed

lemma ex_uavs_full_eval:
  "next_uav ex_uavs_full ex_mac_new = 1" "next_uav_mesh ex_uavs_full ex_mac_new = 0"
  by (simp_all add: next_uav_def next_uav_mesh_def ex_uavs_full_def ex_drone_def ex_mac_new_def
      uav_zero_def mac_zero_def mac_byte0_def UINT32_MAX_def)


lemma u32_le_max: "(t :: u32) \<le> UINT32_MAX"
proof -
  have e: "UINT32_MAX = (- 1 :: u32)" by (simp add: UINT32_MAX_def)
  show ?thesis unfolding e by (rule word_n1_ge)
qed

text \<open>
  The scan either keeps the candidate it was started with, because no later time stamp
  is below the candidate's, or ends on the first slot of least time stamp.
\<close>

lemma oldest_scan_spec:
  "(oldest_scan ts k ot oi = oi \<and> (\<forall>t\<in>set ts. ot \<le> t)) \<or>
   (\<exists>d. oldest_scan ts k ot oi = k + d \<and> d < length ts \<and> ts ! d < ot \<and>
        (\<forall>j<length ts. ts ! d \<le> ts ! j) \<and> (\<forall>j<d. ts ! d < ts ! j))"
proof (induction ts arbitrary: k ot oi)
  case Nil
  then show ?case by simp
next
  case (Cons t ts)
  show ?case
  proof (cases "t < ot")
    case True
    have r: "oldest_scan (t # ts) k ot oi = oldest_scan ts (Suc k) t k" using True by simp
    from Cons.IH [of "Suc k" t k] show ?thesis
    proof (elim disjE exE conjE)
      assume a: "oldest_scan ts (Suc k) t k = k" "\<forall>t'\<in>set ts. t \<le> t'"
      have "\<forall>j<length (t # ts). (t # ts) ! 0 \<le> (t # ts) ! j"
        using a(2) by (auto simp: nth_Cons split: nat.splits)
      then have "oldest_scan (t # ts) k ot oi = k + 0 \<and> 0 < length (t # ts) \<and> (t # ts) ! 0 < ot \<and>
        (\<forall>j<length (t # ts). (t # ts) ! 0 \<le> (t # ts) ! j) \<and> (\<forall>j<0. (t # ts) ! 0 < (t # ts) ! j)"
        using a(1) True unfolding r by simp
      then show ?thesis by blast
    next
      fix d
      assume a: "oldest_scan ts (Suc k) t k = Suc k + d" "d < length ts" "ts ! d < t"
        "\<forall>j<length ts. ts ! d \<le> ts ! j" "\<forall>j<d. ts ! d < ts ! j"
      have lt: "ts ! d < ot" using a(3) True by (rule less_trans)
      have le: "ts ! d \<le> t" using a(3) by simp
      have all: "\<forall>j<length (t # ts). (t # ts) ! Suc d \<le> (t # ts) ! j"
        using a(4) le by (auto simp: nth_Cons split: nat.splits)
      have before: "\<forall>j<Suc d. (t # ts) ! Suc d < (t # ts) ! j"
        using a(3,5) by (auto simp: nth_Cons split: nat.splits)
      have "oldest_scan (t # ts) k ot oi = k + Suc d \<and> Suc d < length (t # ts) \<and>
        (t # ts) ! Suc d < ot \<and>
        (\<forall>j<length (t # ts). (t # ts) ! Suc d \<le> (t # ts) ! j) \<and>
        (\<forall>j<Suc d. (t # ts) ! Suc d < (t # ts) ! j)"
        using a(1,2) lt all before unfolding r by simp
      then show ?thesis by blast
    qed
  next
    case False
    have r: "oldest_scan (t # ts) k ot oi = oldest_scan ts (Suc k) ot oi" using False by simp
    have ott: "ot \<le> t" using False by simp
    from Cons.IH [of "Suc k" ot oi] show ?thesis
    proof (elim disjE exE conjE)
      assume a: "oldest_scan ts (Suc k) ot oi = oi" "\<forall>t'\<in>set ts. ot \<le> t'"
      then show ?thesis using ott unfolding r by simp
    next
      fix d
      assume a: "oldest_scan ts (Suc k) ot oi = Suc k + d" "d < length ts" "ts ! d < ot"
        "\<forall>j<length ts. ts ! d \<le> ts ! j" "\<forall>j<d. ts ! d < ts ! j"
      have lt: "ts ! d < t" using a(3) ott by (rule less_le_trans)
      have le: "ts ! d \<le> t" using lt by simp
      have all: "\<forall>j<length (t # ts). (t # ts) ! Suc d \<le> (t # ts) ! j"
        using a(4) le by (auto simp: nth_Cons split: nat.splits)
      have before: "\<forall>j<Suc d. (t # ts) ! Suc d < (t # ts) ! j"
        using lt a(5) by (auto simp: nth_Cons split: nat.splits)
      have "oldest_scan (t # ts) k ot oi = k + Suc d \<and> Suc d < length (t # ts) \<and>
        (t # ts) ! Suc d < ot \<and>
        (\<forall>j<length (t # ts). (t # ts) ! Suc d \<le> (t # ts) ! j) \<and>
        (\<forall>j<Suc d. (t # ts) ! Suc d < (t # ts) ! j)"
        using a(1,2,3) all before unfolding r by simp
      then show ?thesis by blast
    qed
  qed
qed

text \<open>The oldest-entry scan returns the lowest index among the slots of least time stamp.\<close>

lemma oldest_scan_least:
  assumes "ts \<noteq> []"
  shows "oldest_scan ts 0 UINT32_MAX 0 < length ts \<and>
         (\<forall>j<length ts. ts ! oldest_scan ts 0 UINT32_MAX 0 \<le> ts ! j) \<and>
         (\<forall>j<oldest_scan ts 0 UINT32_MAX 0. ts ! oldest_scan ts 0 UINT32_MAX 0 < ts ! j)"
  using oldest_scan_spec [of ts 0 UINT32_MAX 0]
proof (elim disjE exE conjE)
  assume a: "oldest_scan ts 0 UINT32_MAX 0 = 0" "\<forall>t\<in>set ts. UINT32_MAX \<le> t"
  have "\<forall>t\<in>set ts. t = UINT32_MAX"
  proof
    fix t assume "t \<in> set ts"
    with a(2) have "UINT32_MAX \<le> t" by simp
    then show "t = UINT32_MAX" using u32_le_max [of t] by simp
  qed
  then have "\<forall>j<length ts. ts ! j = UINT32_MAX" by simp
  then show ?thesis using a(1) assms by simp
next
  fix d
  assume "oldest_scan ts 0 UINT32_MAX 0 = 0 + d" "d < length ts"
    "\<forall>j<length ts. ts ! d \<le> ts ! j" "\<forall>j<d. ts ! d < ts ! j"
  then show ?thesis by simp
qed

text \<open>
  node-mode-c5 and node-mode-dualcore: on a miss with no slot whose \<open>mac[0]\<close> is 0, the
  slot handed out has the least \<open>last_seen\<close>, and is the first such slot.
\<close>

lemma next_uav_oldest:
  assumes "\<forall>u\<in>set tbl. mac u \<noteq> m" "\<forall>u\<in>set tbl. mac_byte0 (mac u) \<noteq> 0" "tbl \<noteq> []"
  shows "next_uav tbl m < length tbl \<and>
         (\<forall>j<length tbl. last_seen (tbl ! next_uav tbl m) \<le> last_seen (tbl ! j)) \<and>
         (\<forall>j<next_uav tbl m. last_seen (tbl ! next_uav tbl m) < last_seen (tbl ! j))"
proof -
  have "first_index (\<lambda>u. mac u = m) tbl 0 = None"
    using assms(1) by (simp add: first_index_None_iff)
  moreover have "first_index (\<lambda>u. mac_byte0 (mac u) = 0) tbl 0 = None"
    using assms(2) by (simp add: first_index_None_iff)
  ultimately have n: "next_uav tbl m = oldest_scan (map last_seen tbl) 0 UINT32_MAX 0"
    by (simp add: next_uav_def)
  have ne: "map last_seen tbl \<noteq> []" using assms(3) by simp
  define r where "r = oldest_scan (map last_seen tbl) 0 UINT32_MAX 0"
  have all3: "r < length (map last_seen tbl) \<and>
      (\<forall>j<length (map last_seen tbl). map last_seen tbl ! r \<le> map last_seen tbl ! j) \<and>
      (\<forall>j<r. map last_seen tbl ! r < map last_seen tbl ! j)"
    unfolding r_def by (rule oldest_scan_least [OF ne])
  have b: "r < length tbl" using all3 by simp
  have l: "\<forall>j<length (map last_seen tbl). map last_seen tbl ! r \<le> map last_seen tbl ! j"
    using all3 by blast
  have f: "\<forall>j<r. map last_seen tbl ! r < map last_seen tbl ! j"
    using all3 by blast
  have l': "\<forall>j<length tbl. last_seen (tbl ! r) \<le> last_seen (tbl ! j)"
  proof (intro allI impI)
    fix j assume j: "j < length tbl"
    then have "map last_seen tbl ! r \<le> map last_seen tbl ! j" using l by simp
    then show "last_seen (tbl ! r) \<le> last_seen (tbl ! j)" using j b by simp
  qed
  have f': "\<forall>j<r. last_seen (tbl ! r) < last_seen (tbl ! j)"
  proof (intro allI impI)
    fix j assume j: "j < r"
    then have jl: "j < length tbl" using b by simp
    have "map last_seen tbl ! r < map last_seen tbl ! j" using f j by simp
    then show "last_seen (tbl ! r) < last_seen (tbl ! j)" using jl b by simp
  qed
  show ?thesis unfolding n r_def [symmetric] using b l' f' by blast
qed


lemma next_uav_mesh_lt: "tbl \<noteq> [] \<Longrightarrow> next_uav_mesh tbl m < length tbl"
proof -
  assume ne: "tbl \<noteq> []"
  show ?thesis
  proof (cases "first_index (\<lambda>u. mac u = m) tbl 0")
    case (Some i)
    then show ?thesis using first_index_0 [OF Some] by (simp add: next_uav_mesh_def)
  next
    case None
    show ?thesis
    proof (cases "first_index (\<lambda>u. mac_byte0 (mac u) = 0) tbl 0")
      case (Some i)
      then show ?thesis using None first_index_0 [OF Some] by (simp add: next_uav_mesh_def)
    next
      case n2: None
      then show ?thesis using None ne by (simp add: next_uav_mesh_def)
    qed
  qed
qed

subsection \<open>Detector nodes: the BLE callback\<close>


lemma onResult_normal:
  assumes "haveServiceData dev" "3 \<le> length (serviceData dev)"
  shows "onResult lib stk now dev st =
     Some (st\<lparr>uavs := (uavs st)[next_uav (uavs st) (address dev) :=
                  odid_switch lib stk (drop 1 (serviceData dev))
                    ((uavs st ! next_uav (uavs st) (address dev))
                       \<lparr>last_seen := now, rssi := adv_rssi dev, flag := 1, mac := address dev\<rparr>)],
              printQueue :=
                (if length (printQueue st) < QUEUE_LENGTH
                 then printQueue st @
                   [odid_switch lib stk (drop 1 (serviceData dev))
                     ((uavs st ! next_uav (uavs st) (address dev))
                        \<lparr>last_seen := now, rssi := adv_rssi dev, flag := 1, mac := address dev\<rparr>)]
                 else printQueue st)\<rparr>)"
proof -
  have ne: "serviceData dev \<noteq> []" using assms(2) by auto
  show ?thesis
    using assms ne by (simp add: onResult_def Let_def xQueueSend_def)
qed

lemma onResult_mesh_normal:
  assumes "haveServiceData dev" "3 \<le> length (serviceData dev)"
  shows "onResult_mesh lib stk now dev st =
     Some (st\<lparr>uavs := (uavs st)[next_uav_mesh (uavs st) (address dev) :=
                  (odid_switch lib stk (drop 1 (serviceData dev))
                    ((uavs st ! next_uav_mesh (uavs st) (address dev))
                       \<lparr>last_seen := now, rssi := adv_rssi dev, mac := address dev\<rparr>))\<lparr>flag := 1\<rparr>],
              printQueue :=
                (if length (printQueue st) < QUEUE_LENGTH
                 then printQueue st @
                   [(odid_switch lib stk (drop 1 (serviceData dev))
                     ((uavs st ! next_uav_mesh (uavs st) (address dev))
                        \<lparr>last_seen := now, rssi := adv_rssi dev, mac := address dev\<rparr>))\<lparr>flag := 1\<rparr>]
                 else printQueue st)\<rparr>)"
proof -
  have ne: "serviceData dev \<noteq> []" using assms(2) by auto
  show ?thesis
    using assms ne by (simp add: onResult_mesh_def Let_def xQueueSend_def)
qed

lemma onResult_short:
  "length (serviceData dev) < 3 \<Longrightarrow> onResult lib stk now dev st = Some st"
  "length (serviceData dev) < 3 \<Longrightarrow> onResult_mesh lib stk now dev st = Some st"
  by (auto simp: onResult_def onResult_mesh_def Let_def)

lemma odid_switch_other:
  assumes "msg ! 0 AND 0xF0 \<noteq> 0x00" "msg ! 0 AND 0xF0 \<noteq> 0x10"
    "msg ! 0 AND 0xF0 \<noteq> 0x40" "msg ! 0 AND 0xF0 \<noteq> 0x50"
  shows "odid_switch lib stk msg UAV = UAV"
  using assms by (simp add: odid_switch_def Let_def)

text \<open>
  C10 (as amended). A BLE advertisement with at least three bytes of Remote-ID service
  data whose first message byte has a high nibble other than 0x0, 0x1, 0x4 and 0x5 still
  claims or updates the slot of the advertiser's MAC (\<open>mac\<close>, \<open>rssi\<close>, \<open>last_seen\<close> and
  \<open>flag\<close> are written, the other fields stay) and hands a snapshot of the slot to the
  queue, which takes it when it has room and drops it when it is full. This holds in
  node-mode-c5 and in remoteid-mesh-dualcore-c5.
\<close>

theorem C10_unrecognized_type:
  assumes "haveServiceData dev" "3 \<le> length (serviceData dev)"
    and "serviceData dev ! 1 AND 0xF0 \<noteq> 0x00" "serviceData dev ! 1 AND 0xF0 \<noteq> 0x10"
    and "serviceData dev ! 1 AND 0xF0 \<noteq> 0x40" "serviceData dev ! 1 AND 0xF0 \<noteq> 0x50"
  shows "onResult lib stk now dev st =
           Some (st\<lparr>uavs := (uavs st)[next_uav (uavs st) (address dev) :=
                        (uavs st ! next_uav (uavs st) (address dev))
                          \<lparr>last_seen := now, rssi := adv_rssi dev, flag := 1, mac := address dev\<rparr>],
                    printQueue :=
                      (if length (printQueue st) < QUEUE_LENGTH
                       then printQueue st @
                         [(uavs st ! next_uav (uavs st) (address dev))
                            \<lparr>last_seen := now, rssi := adv_rssi dev, flag := 1, mac := address dev\<rparr>]
                       else printQueue st)\<rparr>) \<and>
         onResult_mesh lib stk now dev st =
           Some (st\<lparr>uavs := (uavs st)[next_uav_mesh (uavs st) (address dev) :=
                        (uavs st ! next_uav_mesh (uavs st) (address dev))
                          \<lparr>last_seen := now, rssi := adv_rssi dev, mac := address dev, flag := 1\<rparr>],
                    printQueue :=
                      (if length (printQueue st) < QUEUE_LENGTH
                       then printQueue st @
                         [(uavs st ! next_uav_mesh (uavs st) (address dev))
                            \<lparr>last_seen := now, rssi := adv_rssi dev, mac := address dev, flag := 1\<rparr>]
                       else printQueue st)\<rparr>)"
proof -
  have d: "drop 1 (serviceData dev) ! 0 = serviceData dev ! 1"
    using assms(2) by simp
  have sw: "odid_switch lib stk (drop 1 (serviceData dev)) U = U" for U
    by (rule odid_switch_other) (use assms(3-6) d in simp_all)
  show ?thesis
    unfolding onResult_normal [OF assms(1,2)] onResult_mesh_normal [OF assms(1,2)] sw
    by simp
qed


lemma uavs_init_Cons: "uavs_init = uav_zero # replicate 7 uav_zero"
  by (simp add: uavs_init_def MAX_UAVS_def eval_nat_numeral)

lemma next_uav_init: "next_uav uavs_init m = 0" "next_uav_mesh uavs_init m = 0"
  by (simp_all add: next_uav_def next_uav_mesh_def uavs_init_Cons uav_zero_def mac_zero_def
      mac_byte0_def first_index_replicate_None)

theorem C10_unrecognized_type_witness:
  "haveServiceData (ex_adv ex_mac_new [0x0D, 0x20, 0x00]) \<and>
   [0x0D, 0x20, 0x00 :: u8] ! 1 AND 0xF0 = 0x20 \<and>
   onResult ex_lib ex_stack 1000 (ex_adv ex_mac_new [0x0D, 0x20, 0x00]) (ex_node uavs_init) =
     Some \<lparr>uavs = uav_zero\<lparr>last_seen := 1000, rssi := - 60, flag := 1, mac := ex_mac_new\<rparr> #
                    replicate 7 uav_zero,
           printQueue = [uav_zero\<lparr>last_seen := 1000, rssi := - 60, flag := 1, mac := ex_mac_new\<rparr>],
           UAS_data = UAS_zero\<rparr>"
  using C10_unrecognized_type [of "ex_adv ex_mac_new [0x0D, 0x20, 0x00]" ex_lib ex_stack 1000
      "ex_node uavs_init"]
  by (simp add: ex_adv_def ex_node_def next_uav_init QUEUE_LENGTH_def MAX_UAVS_def)
     (simp add: uavs_init_Cons)

text \<open>
  The claim of C10 as stated fails on service data of two bytes (the counter and one
  message byte of nibble 0x2): both callbacks return before they touch the table or the
  queue. It also fails when the queue is full: the slot is written but no snapshot is
  enqueued.
\<close>

theorem C10_short_or_full_counterexample:
  "[0x0D, 0x20 :: u8] ! 1 AND 0xF0 = 0x20 \<and>
   onResult ex_lib ex_stack 1000 (ex_adv ex_mac_new [0x0D, 0x20]) (ex_node uavs_init) =
     Some (ex_node uavs_init) \<and>
   onResult_mesh ex_lib ex_stack 1000 (ex_adv ex_mac_new [0x0D, 0x20]) (ex_node uavs_init) =
     Some (ex_node uavs_init) \<and>
   uavs (ex_node uavs_init) = replicate MAX_UAVS uav_zero \<and>
   printQueue (ex_node uavs_init) = [] \<and>
   length ex_full_queue = QUEUE_LENGTH \<and>
   map_option printQueue
     (onResult ex_lib ex_stack 1000 (ex_adv ex_mac_new [0x0D, 0x20, 0x00])
        ((ex_node uavs_init)\<lparr>printQueue := ex_full_queue\<rparr>)) = Some ex_full_queue \<and>
   map_option printQueue
     (onResult_mesh ex_lib ex_stack 1000 (ex_adv ex_mac_new [0x0D, 0x20, 0x00])
        ((ex_node uavs_init)\<lparr>printQueue := ex_full_queue\<rparr>)) = Some ex_full_queue"
  by (simp add: onResult_def onResult_mesh_def ex_adv_def ex_node_def uavs_init_def
      xQueueSend_def Let_def ex_full_queue_def QUEUE_LENGTH_def MAX_UAVS_def)

lemma odid_switch_undersized_basic:
  assumes "msg ! 0 AND 0xF0 = 0x00" "length msg < sizeof_BasicID_encoded lib"
  shows "odid_switch lib stk msg UAV = UAV\<lparr>uav_id := strncpy (ODID_ID_SIZE lib) (UASID (basic stk))\<rparr>"
  using assms by (simp add: odid_switch_def Let_def)

text \<open>
  C4. The code at a failing input: the slot of \<open>aa:bb:cc:dd:ee:ff\<close> holds the identifier
  \<open>DRONE1\<close>, and an advertisement of that address carries a Basic ID message of two
  bytes, shorter than the 25 bytes of the encoded message. In node-mode-c5 and
  remoteid-mesh-dualcore-c5 the decoder is skipped, but the identifier is still copied
  from the uninitialised local: the slot and the queued snapshot hold the stack's
  contents, not \<open>DRONE1\<close>.
\<close>

theorem C4_undersized_basic_id_overwrites:
  "[0x0D, 0x02, 0x12 :: u8] ! 1 AND 0xF0 = 0x00 \<and>
   length (drop 1 [0x0D, 0x02, 0x12 :: u8]) < sizeof_BasicID_encoded ex_lib \<and>
   next_uav (uavs ex_tracked) ex_mac_new = 0 \<and>
   mac (uavs ex_tracked ! 0) = ex_mac_new \<and>
   uav_id (uavs ex_tracked ! 0) = ''DRONE1'' \<and>
   map_option (\<lambda>s. uav_id (uavs s ! 0))
     (onResult ex_lib ex_stack 2000 (ex_adv ex_mac_new [0x0D, 0x02, 0x12]) ex_tracked)
       = Some ''?stack?'' \<and>
   map_option (\<lambda>s. uav_id (uavs s ! 0))
     (onResult_mesh ex_lib ex_stack 2000 (ex_adv ex_mac_new [0x0D, 0x02, 0x12]) ex_tracked)
       = Some ''?stack?'' \<and>
   map_option (\<lambda>s. map uav_id (printQueue s))
     (onResult ex_lib ex_stack 2000 (ex_adv ex_mac_new [0x0D, 0x02, 0x12]) ex_tracked)
       = Some [''?stack?'']"
  by (simp add: onResult_def onResult_mesh_def ex_adv_def ex_node_def ex_tracked_def ex_drone_def
      xQueueSend_def Let_def QUEUE_LENGTH_def MAX_UAVS_def next_uav_def next_uav_mesh_def
      odid_switch_def ex_lib_def ex_stack_def strncpy_def ex_mac_new_def uav_zero_def)

text \<open>
  node-mode-dualcore at the same slot: the raw advertisement has eight bytes, of which
  the last two are the Basic ID message; the message is decoded together with the bytes
  that follow the advertisement in memory, and the result replaces \<open>DRONE1\<close>.
\<close>

lemma ex_short_payload_decoded:
  "bytes_to_string (take 20 (drop 2 (encoded_at (adv_payload ex_short_payload) 6 25))) = ''DRONE9''"
  by code_simp

lemma onResult_dualcore_undersized:
  "payloadLength ex_short_payload = 8 \<and>
   adv_payload ex_short_payload 6 AND 0xF0 = 0x00 \<and>
   uav_id (uavs ex_tracked ! 0) = ''DRONE1'' \<and>
   uav_id (uavs (onResult_dualcore ex_lib ex_stack 2000 ex_short_payload ex_tracked) ! 0)
     = ''DRONE9''"
proof -
  have dual: "uav_id (uavs (onResult_dualcore ex_lib ex_stack 2000 ex_short_payload ex_tracked) ! 0)
      = ''DRONE9''"
    using ex_short_payload_decoded
    by (simp add: onResult_dualcore_def Let_def ex_lib_def ex_tracked_def ex_node_def
        next_uav_def ex_drone_def strncpy_def)
       (simp add: ex_short_payload_def mem_of_def ex_mac_new_def uav_zero_def)
  have p: "payloadLength ex_short_payload = 8" "adv_payload ex_short_payload 6 AND 0xF0 = 0x00"
    "uav_id (uavs ex_tracked ! 0) = ''DRONE1''"
    by (simp_all add: ex_short_payload_def mem_of_def ex_tracked_def ex_node_def ex_drone_def)
  show ?thesis using dual p by simp
qed

subsection \<open>Detector nodes: the output queue\<close>

lemma wifi_store_queue:
  "printQueue (wifi_store next UAV st) =
     (if length (printQueue st) < QUEUE_LENGTH then printQueue st @ [UAV\<lparr>flag := 1\<rparr>]
      else printQueue st)"
  by (simp add: wifi_store_def Let_def xQueueSendFromISR_def)

lemma beacon_scan_full:
  "length (printQueue st) = QUEUE_LENGTH \<Longrightarrow>
     printQueue (beacon_scan next lib now pkt offset st) = printQueue st"
proof (induction "next" lib now pkt offset st rule: beacon_scan.induct)
  case (1 "next" lib now pkt offset st)
  show ?case
  proof (cases "offset < sig_len pkt \<and> \<not> offset + unat (payload pkt (offset + 1)) + 2 > sig_len pkt")
    case False
    then show ?thesis by (subst beacon_scan.simps) auto
  next
    case True
    let ?st' = "(if payload pkt offset = 0xdd \<and>
                 ((payload pkt (offset + 2) = 0x90 \<and> payload pkt (offset + 3) = 0x3a \<and>
                   payload pkt (offset + 4) = 0xe6) \<or>
                  (payload pkt (offset + 2) = 0xfa \<and> payload pkt (offset + 3) = 0x0b \<and>
                   payload pkt (offset + 4) = 0xbc)) \<and>
                 offset + 7 < sig_len pkt
              then
                (let U = odid_message_process_pack lib UAS_zero
                           (\<lambda>k. payload pkt (offset + 7 + k)) (sig_len pkt - (offset + 7))
                 in wifi_store next
                      (uav_of_pack (ODID_ID_SIZE lib) U (mac_at (payload pkt) 10) (rx_rssi pkt) now)
                      (st\<lparr>UAS_data := U\<rparr>))
              else st)"
    have q: "printQueue ?st' = printQueue st"
      using "1.prems" by (simp add: wifi_store_queue Let_def)
    have "printQueue (beacon_scan next lib now pkt (offset + unat (payload pkt (offset + 1)) + 2) ?st')
            = printQueue ?st'"
      using True "1.prems" q by (intro "1.IH") auto
    then show ?thesis
      using True q by (subst beacon_scan.simps) simp
  qed
qed

lemma wifiCallback_full:
  "length (printQueue st) = QUEUE_LENGTH \<Longrightarrow>
     printQueue (wifiCallback next lib now type pkt st) = printQueue st"
proof -
  assume full: "length (printQueue st) = QUEUE_LENGTH"
  obtain rc U where nan: "odid_wifi_receive_message_pack_nan_action_frame lib (UAS_data st)
                         (payload pkt) (sig_len pkt) = (rc, U)"
    by (cases "odid_wifi_receive_message_pack_nan_action_frame lib (UAS_data st)
                         (payload pkt) (sig_len pkt)")
  have s: "printQueue (wifi_store next
                   (uav_of_pack (ODID_ID_SIZE lib) U (mac_at (payload pkt) 10) (rx_rssi pkt) now)
                   (st\<lparr>UAS_data := U\<rparr>)) = printQueue st"
    using full by (simp add: wifi_store_queue)
  have b: "printQueue (beacon_scan next lib now pkt 36 st) = printQueue st"
    by (rule beacon_scan_full [OF full])
  show ?thesis
    unfolding wifiCallback_def nan using s b by simp
qed

text \<open>
  C5. The queue has room for \<open>2 * MAX_UAVS = 16\<close> snapshots. The BLE callbacks always
  return (their send waits zero ticks), the queue's previous contents are a prefix of its
  contents afterwards, and when the queue is full the contents stay exactly as they were,
  also after the WiFi callback and after the BLE callback of node-mode-dualcore, which
  send from the ISR.
\<close>

theorem C5_nonblocking_queue:
  "QUEUE_LENGTH = 16 \<and>
   (\<exists>st'. onResult lib stk now dev st = Some st' \<and>
          prefix (printQueue st) (printQueue st') \<and>
          (length (printQueue st) = QUEUE_LENGTH \<longrightarrow> printQueue st' = printQueue st)) \<and>
   (\<exists>st'. onResult_mesh lib stk now dev st = Some st' \<and>
          prefix (printQueue st) (printQueue st') \<and>
          (length (printQueue st) = QUEUE_LENGTH \<longrightarrow> printQueue st' = printQueue st)) \<and>
   (length (printQueue st) = QUEUE_LENGTH \<longrightarrow>
      printQueue (wifiCallback next lib now type pkt st) = printQueue st \<and>
      printQueue (onResult_dualcore lib stk now raw st) = printQueue st)"
proof -
  have a: "QUEUE_LENGTH = 16" by (simp add: QUEUE_LENGTH_def MAX_UAVS_def)
  have b: "\<exists>st'. onResult lib stk now dev st = Some st' \<and>
          prefix (printQueue st) (printQueue st') \<and>
          (length (printQueue st) = QUEUE_LENGTH \<longrightarrow> printQueue st' = printQueue st)"
    by (simp add: onResult_def Let_def xQueueSend_def)
  have c: "\<exists>st'. onResult_mesh lib stk now dev st = Some st' \<and>
          prefix (printQueue st) (printQueue st') \<and>
          (length (printQueue st) = QUEUE_LENGTH \<longrightarrow> printQueue st' = printQueue st)"
    by (simp add: onResult_mesh_def Let_def xQueueSend_def)
  have e: "printQueue (onResult_dualcore lib stk now raw st) = printQueue st"
    if "length (printQueue st) = QUEUE_LENGTH"
    using that by (simp add: onResult_dualcore_def Let_def xQueueSendFromISR_def)
  have d: "length (printQueue st) = QUEUE_LENGTH \<longrightarrow>
      printQueue (wifiCallback next lib now type pkt st) = printQueue st \<and>
      printQueue (onResult_dualcore lib stk now raw st) = printQueue st"
    using wifiCallback_full e by blast
  show ?thesis using a b c d by (intro conjI)
qed

subsection \<open>Detector nodes: merging BLE fragments\<close>




lemma odid_switch_mac: "mac (odid_switch lib stk msg U) = mac U"
  by (simp add: odid_switch_def Let_def)





subsection \<open>Detector nodes: runs of BLE fragments and WiFi packs\<close>






subsection \<open>Detector nodes: merge correctness\<close>










subsection \<open>Detector nodes: evaluations\<close>










text \<open>
  C2. The code at a failing input: a full table without a zero first byte, the time
  stamps 500, 100, 300, 100, 900, 700, 800, 600 and a Location message from an unseen
  MAC. \<open>next_uav\<close> of node-mode-c5 claims slot 1, the first of the two oldest, while
  \<open>next_uav\<close> of remoteid-mesh-dualcore-c5 claims slot 0. In both variants the BLE
  callback merges into the claimed slot without resetting it, so the identifier of the
  evicted drone stays in the record of the new MAC.
\<close>

theorem C2_eviction_divergence:
  "list_all (\<lambda>u. mac u \<noteq> ex_mac_new \<and> mac_byte0 (mac u) \<noteq> 0) ex_uavs_full \<and>
   length ex_uavs_full = MAX_UAVS \<and>
   map last_seen ex_uavs_full = [500, 100, 300, 100, 900, 700, 800, 600] \<and>
   next_uav ex_uavs_full ex_mac_new = 1 \<and>
   next_uav_mesh ex_uavs_full ex_mac_new = 0 \<and>
   map_option (\<lambda>s. (mac (uavs s ! 0), uav_id (uavs s ! 0), position_of (uavs s ! 0)))
     (onResult_mesh ex_lib ex_stack 1000 (ex_adv ex_mac_new (0x0D # ex_loc_msg))
        (ex_node ex_uavs_full))
     = Some (ex_mac_new, ''DRONE-0'', (47, 122, 100, 3, 1, 2)) \<and>
   map_option (\<lambda>s. (mac (uavs s ! 1), uav_id (uavs s ! 1), position_of (uavs s ! 1)))
     (onResult ex_lib ex_stack 1000 (ex_adv ex_mac_new (0x0D # ex_loc_msg))
        (ex_node ex_uavs_full))
     = Some (ex_mac_new, ''DRONE-1'', (47, 122, 100, 3, 1, 2))"
proof -
  have a: "haveServiceData (ex_adv ex_mac_new (0x0D # ex_loc_msg))"
    "3 \<le> length (serviceData (ex_adv ex_mac_new (0x0D # ex_loc_msg)))"
    by (simp_all add: ex_adv_def ex_loc_msg_def)
  have sw: "odid_switch ex_lib ex_stack ex_loc_msg U =
      U\<lparr>lat_d := 47, long_d := 122, altitude_msl := 100, height_agl := 3, speed := 1,
         heading := 2\<rparr>" for U
    by (simp add: odid_switch_def ex_loc_msg_def ex_lib_def ex_stack_def c_int_def Let_def)
  have t: "list_all (\<lambda>u. mac u \<noteq> ex_mac_new \<and> mac_byte0 (mac u) \<noteq> 0) ex_uavs_full"
    "length ex_uavs_full = MAX_UAVS"
    "map last_seen ex_uavs_full = [500, 100, 300, 100, 900, 700, 800, 600]"
    by (simp_all add: ex_uavs_full_def ex_drone_def ex_mac_new_def mac_byte0_def MAX_UAVS_def)
  have r: "uavs (ex_node ex_uavs_full) ! 0 = ex_drone (0x10, 0, 0, 0, 0, 0) 500 ''DRONE-0''"
    "uavs (ex_node ex_uavs_full) ! 1 = ex_drone (0x10, 0, 0, 0, 0, 1) 100 ''DRONE-1''"
    by (simp_all add: ex_node_def ex_uavs_full_def)
  have l: "length ex_uavs_full = 8" by (simp add: ex_uavs_full_def)
  show ?thesis
    unfolding onResult_normal [OF a] onResult_mesh_normal [OF a]
    using t
    by (simp add: ex_adv_def sw ex_uavs_full_eval l position_of_def ex_node_def)
       (simp add: ex_uavs_full_def ex_drone_def)
qed

lemma next_uav_first_byte_zero_example:
  "next_uav ex_uavs_00 ex_mac_new < length ex_uavs_00 \<and>
   mac_byte0 (mac (ex_uavs_00 ! next_uav ex_uavs_00 ex_mac_new)) = 0 \<and>
   next_uav_mesh ex_uavs_00 ex_mac_new = next_uav ex_uavs_00 ex_mac_new \<and>
   next_uav ex_uavs_full ex_mac_new = oldest_scan (map last_seen ex_uavs_full) 0 UINT32_MAX 0 \<and>
   next_uav_mesh ex_uavs_full ex_mac_new = 0"
proof -
  have h1: "\<forall>u\<in>set ex_uavs_00. mac u \<noteq> ex_mac_new"
    by (simp add: ex_uavs_00_def ex_drone_def ex_mac_new_def ex_mac_00_def uav_zero_def mac_zero_def)
  have h2: "\<exists>u\<in>set ex_uavs_00. mac_byte0 (mac u) = 0"
    by (simp add: ex_uavs_00_def ex_drone_def ex_mac_00_def mac_byte0_def)
  have h3: "\<forall>u\<in>set ex_uavs_full. mac u \<noteq> ex_mac_new"
    by (simp add: ex_uavs_full_def ex_drone_def ex_mac_new_def)
  have h4: "\<forall>u\<in>set ex_uavs_full. mac_byte0 (mac u) \<noteq> 0"
    by (simp add: ex_uavs_full_def ex_drone_def mac_byte0_def)
  have a: "next_uav ex_uavs_00 ex_mac_new < length ex_uavs_00 \<and>
      mac_byte0 (mac (ex_uavs_00 ! next_uav ex_uavs_00 ex_mac_new)) = 0 \<and>
      (\<forall>j < next_uav ex_uavs_00 ex_mac_new. mac_byte0 (mac (ex_uavs_00 ! j)) \<noteq> 0) \<and>
      next_uav_mesh ex_uavs_00 ex_mac_new = next_uav ex_uavs_00 ex_mac_new"
    using next_uav_first_byte_zero [OF h1, THEN conjunct1] h2 by (rule mp)
  have b: "next_uav ex_uavs_full ex_mac_new =
        oldest_scan (map last_seen ex_uavs_full) 0 UINT32_MAX 0 \<and>
      next_uav_mesh ex_uavs_full ex_mac_new = 0"
    using next_uav_first_byte_zero [OF h3, THEN conjunct2] h4 by (rule mp)
  show ?thesis using a b by simp
qed

text \<open>
  C6. The code at a failing input: the first slot of \<open>ex_uavs_00\<close> belongs to the
  tracked drone \<open>00:12:34:56:78:9a\<close> with the identifier \<open>DRONE-A\<close>, and the second
  slot is empty, all six bytes of its MAC being zero. On a miss for
  \<open>aa:bb:cc:dd:ee:ff\<close> the scan that the source introduces as
  \<open>// Second: find empty slot\<close> tests only \<open>mac[0]\<close> and claims the first slot, in
  both variants of \<open>next_uav\<close>; the BLE callback then merges the Location fragment
  into that drone's record, which bears the new MAC and the old identifier afterwards.
\<close>

theorem C6_tracked_slot_claimed:
  "ex_mac_new \<noteq> mac_zero \<and>
   mac (ex_uavs_00 ! 0) = ex_mac_00 \<and> ex_mac_00 \<noteq> mac_zero \<and> ex_mac_00 \<noteq> ex_mac_new \<and>
   uav_id (ex_uavs_00 ! 0) = ''DRONE-A'' \<and>
   mac (ex_uavs_00 ! 1) = mac_zero \<and>
   next_uav ex_uavs_00 ex_mac_new = 0 \<and>
   next_uav_mesh ex_uavs_00 ex_mac_new = 0 \<and>
   map_option (\<lambda>s. (mac (uavs s ! 0), uav_id (uavs s ! 0), position_of (uavs s ! 0)))
     (onResult ex_lib ex_stack 6000 (ex_adv ex_mac_new (0x0D # ex_loc_msg)) (ex_node ex_uavs_00))
     = Some (ex_mac_new, ''DRONE-A'', (47, 122, 100, 3, 1, 2))"
proof -
  have a: "haveServiceData (ex_adv ex_mac_new (0x0D # ex_loc_msg))"
    "3 \<le> length (serviceData (ex_adv ex_mac_new (0x0D # ex_loc_msg)))"
    by (simp_all add: ex_adv_def ex_loc_msg_def)
  have sw: "odid_switch ex_lib ex_stack ex_loc_msg U =
      U\<lparr>lat_d := 47, long_d := 122, altitude_msl := 100, height_agl := 3, speed := 1,
         heading := 2\<rparr>" for U
    by (simp add: odid_switch_def ex_loc_msg_def ex_lib_def ex_stack_def c_int_def Let_def)
  have n: "next_uav ex_uavs_00 ex_mac_new = 0" "next_uav_mesh ex_uavs_00 ex_mac_new = 0"
    by (simp_all add: next_uav_def next_uav_mesh_def ex_uavs_00_def ex_drone_def ex_mac_new_def
        ex_mac_00_def uav_zero_def mac_zero_def mac_byte0_def first_index_replicate_None)
  have m: "ex_mac_new \<noteq> mac_zero" "ex_mac_00 \<noteq> mac_zero" "ex_mac_00 \<noteq> ex_mac_new"
    by (simp_all add: ex_mac_new_def ex_mac_00_def mac_zero_def)
  have r: "ex_uavs_00 ! 0 = ex_drone ex_mac_00 5000 ''DRONE-A''" "ex_uavs_00 ! 1 = uav_zero"
    by (simp_all add: ex_uavs_00_def)
  show ?thesis
    unfolding onResult_normal [OF a]
    by (simp add: ex_adv_def sw n m r ex_node_def ex_drone_def position_of_def uav_zero_def)
       (simp add: ex_uavs_00_def uav_zero_def)
qed

theorem C5_nonblocking_queue_witness:
  "length (printQueue ((ex_node uavs_init)\<lparr>printQueue := ex_full_queue\<rparr>)) = QUEUE_LENGTH \<and>
   map_option printQueue
     (onResult ex_lib ex_stack 1000 (ex_adv ex_mac_new (0x0D # ex_loc_msg))
        ((ex_node uavs_init)\<lparr>printQueue := ex_full_queue\<rparr>)) = Some ex_full_queue \<and>
   map_option (\<lambda>s. mac (uavs s ! 0))
     (onResult ex_lib ex_stack 1000 (ex_adv ex_mac_new (0x0D # ex_loc_msg))
        ((ex_node uavs_init)\<lparr>printQueue := ex_full_queue\<rparr>)) = Some ex_mac_new"
proof -
  let ?st = "(ex_node uavs_init)\<lparr>printQueue := ex_full_queue\<rparr>"
  have full: "length (printQueue ?st) = QUEUE_LENGTH"
    by (simp add: ex_full_queue_def QUEUE_LENGTH_def MAX_UAVS_def)
  have a: "haveServiceData (ex_adv ex_mac_new (0x0D # ex_loc_msg))"
    "3 \<le> length (serviceData (ex_adv ex_mac_new (0x0D # ex_loc_msg)))"
    by (simp_all add: ex_adv_def ex_loc_msg_def)
  have m: "map_option (\<lambda>s. mac (uavs s ! 0))
     (onResult ex_lib ex_stack 1000 (ex_adv ex_mac_new (0x0D # ex_loc_msg)) ?st) = Some ex_mac_new"
    unfolding onResult_normal [OF a]
    by (simp add: ex_node_def next_uav_init ex_adv_def odid_switch_mac)
       (simp add: uavs_init_Cons odid_switch_mac)
  from C5_nonblocking_queue [of ex_lib ex_stack 1000 "ex_adv ex_mac_new (0x0D # ex_loc_msg)" ?st
      next_uav WIFI_PKT_MGMT ex_pkt ex_short_payload]
  obtain st' where "onResult ex_lib ex_stack 1000 (ex_adv ex_mac_new (0x0D # ex_loc_msg)) ?st = Some st'"
    and "length (printQueue ?st) = QUEUE_LENGTH \<longrightarrow> printQueue st' = printQueue ?st"
    by blast
  then have "map_option printQueue
     (onResult ex_lib ex_stack 1000 (ex_adv ex_mac_new (0x0D # ex_loc_msg)) ?st) = Some ex_full_queue"
    using full by simp
  then show ?thesis using full m by simp
qed

end
